theory Spec2Isabelle
  imports Complex_Main
begin

section \<open>Python values, exceptions and results\<close>

text \<open>
  The module \<open>blessed/terminal.py\<close> is Python. The model keeps the values the
  code handles in a small universe: \<open>None\<close>, booleans, integers, text, the inert
  \<open>NullCallableString\<close> of the formatters module, and the string-like formatting
  values that attribute resolution produces (carried as their sequence text).
\<close>

text \<open>
  An int object has an identity (the address of the object) and a value. Python's
  \<open>is\<close> compares identities. CPython keeps one object for each integer from \<open>-5\<close>
  to \<open>256\<close>, so two int objects of the same small value are the same object; two int
  objects of the same larger value need not be.
\<close>

datatype int_obj = IntObj (address: nat) (int_value: int)

definition same_object :: "int_obj \<Rightarrow> int_obj \<Rightarrow> bool" where
  "same_object a b =
     (int_value a = int_value b \<and>
      (address a = address b \<or> (- 5 \<le> int_value a \<and> int_value a \<le> 256)))"

datatype pyobj =
    PyNone
  | PyBool bool
  | PyInt int_obj
  | PyText string
  | NullCallableString
  | FormattingString string

text \<open>Python truth value testing, as used by \<open>and\<close>, \<open>or\<close>, \<open>not\<close> and \<open>assert\<close>.\<close>

fun truthy :: "pyobj \<Rightarrow> bool" where
  "truthy PyNone = False"
| "truthy (PyBool b) = b"
| "truthy (PyInt n) = (int_value n \<noteq> 0)"
| "truthy (PyText s) = (s \<noteq> [])"
| "truthy NullCallableString = False"
| "truthy (FormattingString s) = (s \<noteq> [])"

text \<open>The exceptions that the modelled code paths can raise.\<close>

datatype error =
    AssertionError
  | TypeError
  | ValueError
  | IOError
  | UnicodeDecodeError
  | BodyError string

section \<open>The Terminal object\<close>

text \<open>
  The instance attributes that \<open>Terminal.__init__\<close> assigns are the fields of the
  record. \<open>attrs\<close> is the part of the instance dictionary that is written with
  \<open>setattr\<close>: the \<open>KEY_*\<close> codes stored by the constructor and the values cached by
  \<open>__getattr__\<close> (newest binding first). \<open>keyboard_buf\<close> is the deque
  \<open>_keyboard_buf\<close>, left end first.
\<close>

record terminal =
  stream_kb :: "int option"
  is_a_tty :: bool
  does_styling :: bool
  init_descriptor :: "int option"
  kind :: "string option"
  attrs :: "(string \<times> pyobj) list"
  keyboard_buf :: string

section \<open>The process environment\<close>

text \<open>
  What the module reads from the operating system and from curses is collected in one
  record of finite tables, so that every definition below computes:
  \<^item> \<open>environ\<close>: \<open>os.environ\<close>;
  \<^item> \<open>stdout_fileno\<close>, \<open>stdin_fileno\<close>: \<open>sys.__stdout__.fileno()\<close> and
    \<open>sys.__stdin__.fileno()\<close>;
  \<^item> \<open>ttys\<close>: the descriptors for which \<open>os.isatty\<close> holds;
  \<^item> \<open>terminfo\<close>: the kinds that the C routine \<open>setupterm\<close> accepts;
  \<^item> \<open>winsizes\<close>: the answers to the \<open>TIOCGWINSZ\<close> ioctl, as (rows, columns,
    x pixels, y pixels); a target with no entry makes \<open>fcntl.ioctl\<close> raise \<open>IOError\<close>;
  \<^item> \<open>keycodes\<close>: the table returned by \<open>keyboard.get_keyboard_codes()\<close>.
\<close>

datatype fd_ref = Descriptor int | StdoutFile

record sys_env =
  environ :: "(string \<times> string) list"
  stdout_fileno :: int
  stdin_fileno :: int
  ttys :: "int list"
  terminfo :: "string list"
  winsizes :: "(fd_ref \<times> int \<times> int \<times> int \<times> int) list"
  keycodes :: "(int_obj \<times> string) list"

text \<open>\<open>os.environ.get(name, default)\<close> and \<open>os.getenv(name, default)\<close>.\<close>

definition environ_get :: "sys_env \<Rightarrow> string \<Rightarrow> string \<Rightarrow> string" where
  "environ_get env name dflt =
     (case map_of (environ env) name of Some v \<Rightarrow> v | None \<Rightarrow> dflt)"

text \<open>
  The state of the process that outlives a Terminal: the module global \<open>_CUR_TERM\<close>,
  the warnings emitted so far (oldest first), and the flag \<open>initialised_setupterm\<close> of
  Python's curses module, which the comment above \<open>_CUR_TERM\<close> quotes: once one call
  of \<open>curses.setupterm\<close> has succeeded, later calls return without doing anything.
\<close>

datatype warning =
    FailedSetupterm string
  | KindMismatch string string

record process =
  cur_term :: "string option"
  warnings :: "warning list"
  initialised_setupterm :: bool

text \<open>
  \<open>curses.setupterm(kind, fd)\<close> raises \<open>curses.error\<close> exactly when the C routine is
  run (no earlier success) and rejects the kind.
\<close>

definition setupterm_succeeds :: "sys_env \<Rightarrow> process \<Rightarrow> string \<Rightarrow> bool" where
  "setupterm_succeeds env p k = (initialised_setupterm p \<or> k \<in> set (terminfo env))"

section \<open>Terminal.__init__\<close>

text \<open>
  A stream argument is seen by the constructor only through \<open>fileno()\<close>: \<open>None\<close>
  stands for an object with no callable \<open>fileno\<close> or one that raises
  \<open>io.UnsupportedOperation\<close>.
\<close>

datatype py_stream = PyStream (fileno: "int option")

text \<open>
  \<^verbatim>\<open>
  if stream is None:
      stream = sys.__stdout__
      self.stream_kb = sys.__stdin__.fileno()
  else:
      self.stream_kb = None
  ...
  self._is_a_tty = stream_fd is not None and os.isatty(stream_fd)
  self._does_styling = ((self.is_a_tty or force_styling) and
                        force_styling is not None)
  self._init_descriptor = (stream_fd is None and sys.__stdout__.fileno()
                           or stream_fd)
  self._kind = kind or os.environ.get('TERM', 'unknown')
  if self.does_styling:
      try:
          curses.setupterm(self._kind, self._init_descriptor)
      except curses.error:
          warnings.warn('Failed to setupterm(kind=%s)' % (self._kind,))
          self._kind = None
          self._does_styling = False
      else:
          if _CUR_TERM is None or self._kind == _CUR_TERM:
              _CUR_TERM = self._kind
          else:
              warnings.warn('A terminal of kind "%s" has been requested; ...
                  for a terminal of kind "%s" will continue to be returned ...'
                  % (self._kind, _CUR_TERM,))
  if self.does_styling:
      ...
      for key_code, key_name in self._keycodes.items():
          setattr(self, key_name, key_code)
  self._keyboard_buf = collections.deque()
  \<close>
  \<open>force_styling\<close> is \<open>None\<close>, \<open>False\<close> or \<open>True\<close>. The result is the new
  Terminal and the new state of the process.
\<close>

definition key_attrs :: "(int_obj \<times> string) list \<Rightarrow> (string \<times> pyobj) list" where
  "key_attrs codes = foldl (\<lambda>acc (key_code, key_name). (key_name, PyInt key_code) # acc) [] codes"

text \<open>\<open>kind or os.environ.get('TERM', 'unknown')\<close>: the empty text counts as no kind.\<close>

definition requested_kind :: "sys_env \<Rightarrow> string option \<Rightarrow> string" where
  "requested_kind env kind_arg =
     (case kind_arg of
        None \<Rightarrow> environ_get env ''TERM'' ''unknown''
      | Some s \<Rightarrow> (if s \<noteq> [] then s else environ_get env ''TERM'' ''unknown''))"

definition terminal_init ::
  "sys_env \<Rightarrow> process \<Rightarrow> string option \<Rightarrow> py_stream option \<Rightarrow> bool option
     \<Rightarrow> terminal \<times> process" where
  "terminal_init env p kind_arg stream_arg force_styling =
     (let kb = (case stream_arg of None \<Rightarrow> Some (stdin_fileno env) | Some s \<Rightarrow> None);
          stream_fd = (case stream_arg of None \<Rightarrow> Some (stdout_fileno env)
                       | Some s \<Rightarrow> fileno s);
          tty = (case stream_fd of None \<Rightarrow> False | Some fd \<Rightarrow> fd \<in> set (ttys env));
          styling = ((tty \<or> force_styling = Some True) \<and> force_styling \<noteq> None);
          init_fd = (case stream_fd of
                       None \<Rightarrow> (if stdout_fileno env \<noteq> 0 then Some (stdout_fileno env)
                                else None)
                     | Some fd \<Rightarrow> Some fd);
          k = requested_kind env kind_arg;
          t0 = \<lparr>stream_kb = kb, is_a_tty = tty, does_styling = styling,
                init_descriptor = init_fd, kind = Some k, attrs = [], keyboard_buf = []\<rparr>;
          (t1, p1) =
            (if does_styling t0 then
               (if setupterm_succeeds env p k then
                  (t0,
                   (if cur_term p = None \<or> cur_term p = Some k
                    then p\<lparr>cur_term := Some k, initialised_setupterm := True\<rparr>
                    else p\<lparr>warnings := warnings p @ [KindMismatch k (the (cur_term p))],
                           initialised_setupterm := True\<rparr>))
                else
                  (t0\<lparr>kind := None, does_styling := False\<rparr>,
                   p\<lparr>warnings := warnings p @ [FailedSetupterm k]\<rparr>))
             else (t0, p))
      in ((if does_styling t1 then t1\<lparr>attrs := key_attrs (keycodes env)\<rparr> else t1), p1))"

text \<open>
  A run of the process that constructs one Terminal after the other, each from its
  arguments (kind, stream, force_styling); the result is the state of the process at
  the end.
\<close>

fun construct_all ::
  "sys_env \<Rightarrow> process \<Rightarrow> (string option \<times> py_stream option \<times> bool option) list \<Rightarrow> process" where
  "construct_all env p [] = p"
| "construct_all env p ((kind_arg, stream_arg, force_styling) # rest) =
     construct_all env (snd (terminal_init env p kind_arg stream_arg force_styling)) rest"

section \<open>Text helpers of the Python library\<close>

text \<open>
  Text is a list of characters. The built-ins below are modelled on the character range
  that \<open>char\<close> covers (code points below 256).

  \<open>is_space\<close>: the characters that \<open>strip()\<close> and \<open>int()\<close> treat as white space.
  \<open>is_linebreak\<close>: the characters at which \<open>splitlines()\<close> ends a line.
\<close>

definition is_space :: "char \<Rightarrow> bool" where
  "is_space c = (of_char c \<in> set [9, 10, 11, 12, 13, 28, 29, 30, 31, 32, 133, 160 :: nat])"

definition is_linebreak :: "char \<Rightarrow> bool" where
  "is_linebreak c = (of_char c \<in> set [10, 11, 12, 13, 28, 29, 30, 133 :: nat])"

definition py_strip :: "string \<Rightarrow> string" where
  "py_strip s = rev (dropWhile is_space (rev (dropWhile is_space s)))"

text \<open>
  \<open>text.splitlines()\<close>: the lines without their line ends; carriage return followed by
  line feed is one line end; no empty last line is produced after a final line end.
  The first argument is the line collected so far.
\<close>

fun splitlines_from :: "string \<Rightarrow> string \<Rightarrow> string list" where
  "splitlines_from cur [] = (if cur = [] then [] else [cur])"
| "splitlines_from cur [c] = (if is_linebreak c then [cur] else [cur @ [c]])"
| "splitlines_from cur (c # d # cs) =
     (if c = CHR 0x0D \<and> d = CHR 0x0A then cur # splitlines_from [] cs
      else if is_linebreak c then cur # splitlines_from [] (d # cs)
      else splitlines_from (cur @ [c]) (d # cs))"

definition splitlines :: "string \<Rightarrow> string list" where
  "splitlines s = splitlines_from [] s"

text \<open>
  \<open>int(s)\<close> on text: optional surrounding white space, an optional sign, then one or
  more decimal digits; anything else raises \<open>ValueError\<close>.
\<close>

definition is_digit :: "char \<Rightarrow> bool" where
  "is_digit c = (48 \<le> (of_char c :: nat) \<and> (of_char c :: nat) \<le> 57)"

definition digits_value :: "string \<Rightarrow> int" where
  "digits_value ds = foldl (\<lambda>acc c. 10 * acc + (of_char c - 48)) 0 ds"

definition py_int :: "string \<Rightarrow> error + int" where
  "py_int s =
     (let b = py_strip s;
          neg = (b \<noteq> [] \<and> hd b = CHR ''-'');
          ds = (if b \<noteq> [] \<and> (hd b = CHR ''-'' \<or> hd b = CHR ''+'') then tl b else b)
      in if ds \<noteq> [] \<and> list_all is_digit ds
         then Inr (if neg then - digits_value ds else digits_value ds)
         else Inl ValueError)"

section \<open>height and width\<close>

text \<open>
  \<open>WINSZ\<close> is the named tuple of the module; the pixel fields are \<open>None\<close> in the
  fallback value.
\<close>

record winsz =
  ws_row :: int
  ws_col :: int
  ws_xpixel :: "int option"
  ws_ypixel :: "int option"

text \<open>
  \<^verbatim>\<open>
  def _winsize(fd):
      data = fcntl.ioctl(fd, termios.TIOCGWINSZ, WINSZ._BUF)
      return WINSZ(*struct.unpack(WINSZ._FMT, data))
  \<close>
\<close>

definition winsize :: "sys_env \<Rightarrow> fd_ref \<Rightarrow> error + winsz" where
  "winsize env fd =
     (case map_of (winsizes env) fd of
        None \<Rightarrow> Inl IOError
      | Some (r, c, x, y) \<Rightarrow>
          Inr \<lparr>ws_row = r, ws_col = c, ws_xpixel = Some x, ws_ypixel = Some y\<rparr>)"

text \<open>
  \<^verbatim>\<open>
  for fd in (self._init_descriptor, sys.__stdout__):
      try:
          if fd is not None:
              return self._winsize(fd)
      except IOError:
          pass
  return WINSZ(ws_row=int(os.getenv('LINES', '25')),
               ws_col=int(os.getenv('COLUMNS', '80')),
               ws_xpixel=None, ws_ypixel=None)
  \<close>
  \<open>query_candidates\<close> is the loop: \<open>None\<close> when it falls through. Only \<open>IOError\<close>
  is caught; any other exception of a query leaves the loop.
\<close>

fun query_candidates :: "sys_env \<Rightarrow> fd_ref option list \<Rightarrow> (error + winsz) option" where
  "query_candidates env [] = None"
| "query_candidates env (None # fds) = query_candidates env fds"
| "query_candidates env (Some fd # fds) =
     (case winsize env fd of
        Inr w \<Rightarrow> Some (Inr w)
      | Inl e \<Rightarrow> (if e = IOError then query_candidates env fds else Some (Inl e)))"

definition height_and_width :: "sys_env \<Rightarrow> terminal \<Rightarrow> error + winsz" where
  "height_and_width env t =
     (case query_candidates env [map_option Descriptor (init_descriptor t), Some StdoutFile] of
        Some r \<Rightarrow> r
      | None \<Rightarrow>
          (case py_int (environ_get env ''LINES'' ''25'') of
             Inl e \<Rightarrow> Inl e
           | Inr r \<Rightarrow>
               (case py_int (environ_get env ''COLUMNS'' ''80'') of
                  Inl e \<Rightarrow> Inl e
                | Inr c \<Rightarrow>
                    Inr \<lparr>ws_row = r, ws_col = c, ws_xpixel = None, ws_ypixel = None\<rparr>)))"

definition height :: "sys_env \<Rightarrow> terminal \<Rightarrow> error + int" where
  "height env t = map_sum id ws_row (height_and_width env t)"

definition width :: "sys_env \<Rightarrow> terminal \<Rightarrow> error + int" where
  "width env t = map_sum id ws_col (height_and_width env t)"

section \<open>wrap\<close>

text \<open>
  \<^verbatim>\<open>
  def wrap(self, text, width=None, **kwargs):
      _blw = 'break_long_words'
      assert (_blw not in kwargs or not kwargs[_blw]), (...)
      width = width is None and self.width or width
      lines = []
      for line in text.splitlines():
          lines.extend(
              (_linewrap for _linewrap in sequences.SequenceTextWrapper(
                  width=width, term=self, **kwargs).wrap(text))
              if line.strip() else (u'',))
      return lines
  \<close>
  The sequences module is not part of the sources at hand, so
  \<open>SequenceTextWrapper(width=width, term=self, **kwargs).wrap(s)\<close> is the parameter
  \<open>text_wrapper width kwargs s\<close>; it may raise. \<open>wrap_lines\<close> is the loop, with
  \<open>lines\<close> as its accumulator.
\<close>

type_synonym kwargs = "(string \<times> pyobj) list"

type_synonym wrapper = "int option \<Rightarrow> kwargs \<Rightarrow> string \<Rightarrow> error + string list"

fun wrap_lines ::
  "wrapper \<Rightarrow> int option \<Rightarrow> kwargs \<Rightarrow> string \<Rightarrow> string list \<Rightarrow> string list
     \<Rightarrow> error + string list" where
  "wrap_lines text_wrapper w kw text lines [] = Inr lines"
| "wrap_lines text_wrapper w kw text lines (line # rest) =
     (if py_strip line \<noteq> []
      then (case text_wrapper w kw text of
              Inl e \<Rightarrow> Inl e
            | Inr wrapped \<Rightarrow> wrap_lines text_wrapper w kw text (lines @ wrapped) rest)
      else wrap_lines text_wrapper w kw text (lines @ [[]]) rest)"

definition break_long_words_set :: "kwargs \<Rightarrow> bool" where
  "break_long_words_set kw =
     (case map_of kw ''break_long_words'' of None \<Rightarrow> False | Some v \<Rightarrow> truthy v)"

definition wrap ::
  "wrapper \<Rightarrow> sys_env \<Rightarrow> terminal \<Rightarrow> string \<Rightarrow> int option \<Rightarrow> kwargs
     \<Rightarrow> error + string list" where
  "wrap text_wrapper env t text width_arg kw =
     (if break_long_words_set kw then Inl AssertionError
      else
        (case (case width_arg of
                 None \<Rightarrow> map_sum id (\<lambda>n. if n \<noteq> 0 then Some n else None) (width env t)
               | Some n \<Rightarrow> Inr (Some n)) of
           Inl e \<Rightarrow> Inl e
         | Inr w \<Rightarrow> wrap_lines text_wrapper w kw text [] (splitlines text)))"

section \<open>Attribute resolution\<close>

text \<open>
  \<open>dir(self)\<close>: the members of the class, the attributes assigned by the constructor
  and the names bound with \<open>setattr\<close>.
\<close>

definition class_names :: "string list" where
  "class_names =
     [''__init__'', ''_sugar'', ''__getattr__'', ''does_styling'', ''is_a_tty'', ''height'',
      ''width'', ''_winsize'', ''_height_and_width'', ''location'', ''fullscreen'',
      ''hidden_cursor'', ''color'', ''on_color'', ''normal'', ''number_of_colors'',
      ''_foreground_color'', ''_background_color'', ''ljust'', ''rjust'', ''center'',
      ''length'', ''wrap'', ''kbhit'', ''cbreak'', ''raw'', ''inkey'',
      ''stream_kb'', ''_is_a_tty'', ''_does_styling'', ''_init_descriptor'', ''_kind'',
      ''_keycodes'', ''_keymap'', ''_keyboard_buf'', ''_encoding'', ''_keyboard_decoder'',
      ''stream'']"

definition terminal_dir :: "terminal \<Rightarrow> string list" where
  "terminal_dir t = class_names @ map fst (attrs t)"

text \<open>
  \<^verbatim>\<open>
  def __getattr__(self, attr):
      if not self.does_styling:
          return formatters.NullCallableString()
      val = formatters.resolve_attribute(self, attr)
      if not attr in dir(self):
          setattr(self, attr, val)
      return val
  \<close>
  \<open>formatters.resolve_attribute\<close> is a parameter: it stands for the Formatter Resolver
  and the Capability Registry behind it, and yields the sequence text of the
  string-like formatting value.
\<close>

type_synonym resolver = "terminal \<Rightarrow> string \<Rightarrow> string"

definition getattr_dunder :: "resolver \<Rightarrow> terminal \<Rightarrow> string \<Rightarrow> pyobj \<times> terminal" where
  "getattr_dunder resolve_attribute t attr =
     (if \<not> does_styling t then (NullCallableString, t)
      else
        (let val = FormattingString (resolve_attribute t attr)
         in (val, if attr \<notin> set (terminal_dir t)
                  then t\<lparr>attrs := (attr, val) # attrs t\<rparr> else t)))"

text \<open>
  \<open>self.attr\<close> for a name that is neither a member of the class nor assigned by the
  constructor: the instance dictionary first, \<open>__getattr__\<close> when the name is not
  bound there.
\<close>

definition instance_getattr :: "resolver \<Rightarrow> terminal \<Rightarrow> string \<Rightarrow> pyobj \<times> terminal" where
  "instance_getattr resolve_attribute t attr =
     (case map_of (attrs t) attr of
        Some v \<Rightarrow> (v, t)
      | None \<Rightarrow> getattr_dunder resolve_attribute t attr)"





section \<open>location\<close>

text \<open>
  The formatting values that \<open>self.save\<close>, \<open>self.restore\<close>, \<open>self.move\<close>,
  \<open>self.move_x\<close> and \<open>self.move_y\<close> resolve to: two texts and three functions from
  integer arguments to texts. They are all empty for a Terminal that does no styling.
\<close>

record capabilities =
  save :: string
  restore :: string
  move :: "int \<Rightarrow> int \<Rightarrow> string"
  move_x :: "int \<Rightarrow> string"
  move_y :: "int \<Rightarrow> string"

text \<open>
  \<^verbatim>\<open>
  @contextlib.contextmanager
  def location(self, x=None, y=None):
      self.stream.write(self.save)
      if x is not None and y is not None:
          self.stream.write(self.move(y, x))
      elif x is not None:
          self.stream.write(self.move_x(x))
      elif y is not None:
          self.stream.write(self.move_y(y))
      try:
          yield
      finally:
          self.stream.write(self.restore)
  \<close>
  The stream is the text written to it so far. The body of the \<open>with\<close> statement takes
  the stream and returns it together with the exception it raised, if any; that
  exception leaves the context manager after the \<open>finally\<close> clause has run.
\<close>

type_synonym with_body = "string \<Rightarrow> error option \<times> string"

definition location ::
  "capabilities \<Rightarrow> int option \<Rightarrow> int option \<Rightarrow> with_body \<Rightarrow> string \<Rightarrow> error option \<times> string" where
  "location caps x y body out =
     (let out1 = out @ save caps;
          out2 = (if x \<noteq> None \<and> y \<noteq> None then out1 @ move caps (the y) (the x)
                  else if x \<noteq> None then out1 @ move_x caps (the x)
                  else if y \<noteq> None then out1 @ move_y caps (the y)
                  else out1);
          (raised, out3) = body out2
      in (raised, out3 @ restore caps))"

section \<open>The keyboard\<close>

text \<open>
  A call of a keyboard operation returns a value or raises an exception, or it never
  returns: a system call waits for a byte that never comes, or a loop goes round for
  ever. The result of a call is therefore an optional outcome, \<open>None\<close> when the call
  never returns.
\<close>

datatype 'a outcome = Returns 'a | Raises error

text \<open>
  The keyboard stream as the code observes it: a clock (\<open>time.time()\<close>); the bytes
  not yet read, in order, each with its arrival time and with what the incremental
  decoder \<open>_keyboard_decoder.decode(byte, final=False)\<close> does with it (the text it
  yields, empty while a multi-byte character is incomplete, or \<open>None\<close> when it raises
  \<open>UnicodeDecodeError\<close>); and the time at which the stream reaches end of file once
  these bytes are read (\<open>None\<close>: the stream stays open). Time passes only inside the
  system calls \<open>select\<close> and \<open>read\<close>.
\<close>

record world =
  clock :: rat
  pending :: "(rat \<times> string option) list"
  eof :: "rat option"

text \<open>
  The time from which the descriptor is ready for reading: the arrival of the next
  byte, or the end of file when no byte is left. A descriptor at end of file is ready.
\<close>

definition next_ready :: "world \<Rightarrow> rat option" where
  "next_ready w = (case pending w of [] \<Rightarrow> eof w | (arrival, b) # rest \<Rightarrow> Some arrival)"

text \<open>
  \<open>select.select([fd], [], [], timeout)\<close>, reduced to the list of descriptors ready
  for reading. A \<open>None\<close> in the list to watch is a \<open>TypeError\<close>; a negative timeout
  is rejected (\<open>ValueError\<close> in Python 3); the timeout \<open>None\<close> waits without limit
  until the descriptor is ready.
\<close>

definition select_read ::
  "world \<Rightarrow> int option \<Rightarrow> rat option \<Rightarrow> (int option list \<times> world) outcome option" where
  "select_read w fd timeout =
     (if fd = None then Some (Raises TypeError)
      else
        (case timeout of
           None \<Rightarrow>
             (case next_ready w of
                None \<Rightarrow> None
              | Some ready \<Rightarrow> Some (Returns ([fd], w\<lparr>clock := max (clock w) ready\<rparr>)))
         | Some d \<Rightarrow>
             (if d < 0 then Some (Raises ValueError)
              else
                (case next_ready w of
                   None \<Rightarrow> Some (Returns ([], w\<lparr>clock := clock w + d\<rparr>))
                 | Some ready \<Rightarrow>
                     (if ready \<le> clock w + d
                      then Some (Returns ([fd], w\<lparr>clock := max (clock w) ready\<rparr>))
                      else Some (Returns ([], w\<lparr>clock := clock w + d\<rparr>)))))))"

text \<open>
  \<^verbatim>\<open>
  def kbhit(self, timeout=0):
      if self.keyboard_fd is None:
          return False
      check_r, check_w, check_x = [self.stream_kb], [], []
      ready_r, ready_w, ready_x = select.select(
          check_r, check_w, check_x, timeout)
      return check_r == ready_r
  \<close>
  No statement of the class assigns \<open>keyboard_fd\<close>, so \<open>self.keyboard_fd\<close> is a
  lookup in the instance dictionary and then a call of \<open>__getattr__\<close>.
\<close>

definition kbhit ::
  "resolver \<Rightarrow> terminal \<Rightarrow> world \<Rightarrow> rat option
     \<Rightarrow> (bool \<times> terminal \<times> world) outcome option" where
  "kbhit resolve_attribute t w timeout =
     (case instance_getattr resolve_attribute t ''keyboard_fd'' of
        (keyboard_fd, t1) \<Rightarrow>
          (if keyboard_fd = PyNone then Some (Returns (False, t1, w))
           else
             (case select_read w (stream_kb t1) timeout of
                None \<Rightarrow> None
              | Some (Raises e) \<Rightarrow> Some (Raises e)
              | Some (Returns (ready_r, w1)) \<Rightarrow>
                  Some (Returns ([stream_kb t1] = ready_r, t1, w1)))))"

text \<open>
  \<^verbatim>\<open>
  def _decode_next():
      byte = os.read(self.stream_kb, 1)
      return self._keyboard_decoder.decode(byte, final=False)
  \<close>
  \<open>os.read\<close> waits for the next byte; at end of file it returns the empty byte string
  at once, which decodes to the empty text, and nothing is consumed.
\<close>

definition decode_next :: "world \<Rightarrow> (string \<times> world) outcome option" where
  "decode_next w =
     (case pending w of
        [] \<Rightarrow>
          (case eof w of
             None \<Rightarrow> None
           | Some e \<Rightarrow> Some (Returns ([], w\<lparr>clock := max (clock w) e\<rparr>)))
      | (arrival, b) # rest \<Rightarrow>
          (case b of
             None \<Rightarrow> Some (Raises UnicodeDecodeError)
           | Some s \<Rightarrow>
               Some (Returns (s, w\<lparr>clock := max (clock w) arrival, pending := rest\<rparr>))))"

text \<open>
  A \<open>Keystroke\<close> is a text (its length and truth value are those of the text) with
  the attributes \<open>code\<close> (\<open>None\<close> or an int object) and \<open>name\<close>.
\<close>

record keystroke =
  ks_text :: string
  ks_code :: "int_obj option"
  ks_name :: "string option"

text \<open>
  \<^verbatim>\<open>
  def _timeleft(stime, timeout):
      if timeout is not None:
          if timeout is 0:
              return 0
          return max(0, timeout - (time.time() - stime))
  \<close>
\<close>

definition timeleft :: "world \<Rightarrow> rat \<Rightarrow> rat option \<Rightarrow> rat option" where
  "timeleft w stime timeout =
     (case timeout of
        None \<Rightarrow> None
      | Some d \<Rightarrow> (if d = 0 then Some 0 else Some (max 0 (d - (clock w - stime)))))"

text \<open>
  \<^verbatim>\<open>
  ucs = u''
  while self._keyboard_buf:
      ucs += self._keyboard_buf.pop()
  \<close>
  \<open>pop()\<close> takes from the right end of the deque.
\<close>

function rebuffer :: "string \<Rightarrow> string \<Rightarrow> string \<times> string" where
  "rebuffer ucs buf =
     (if buf \<noteq> [] then rebuffer (ucs @ [last buf]) (butlast buf) else (ucs, buf))"
  by pat_completeness auto
termination
  by (relation "measure (\<lambda>(ucs, buf). length buf)") auto

declare rebuffer.simps [simp del]

text \<open>
  \<^verbatim>\<open>
  while self.kbhit():
      ucs += _decode_next()
  \<close>
  The loops that read from the keyboard need not end: at end of file \<open>kbhit\<close> is true
  and \<open>_decode_next\<close> yields the empty text, again and again.
\<close>

partial_function (option) recv_available ::
  "resolver \<Rightarrow> terminal \<Rightarrow> world \<Rightarrow> string \<Rightarrow> (string \<times> terminal \<times> world) outcome option" where
  "recv_available R t w ucs =
     (case kbhit R t w (Some 0) of
        None \<Rightarrow> None
      | Some (Raises e) \<Rightarrow> Some (Raises e)
      | Some (Returns (hit, t1, w1)) \<Rightarrow>
          (if hit
           then (case decode_next w1 of
                   None \<Rightarrow> None
                 | Some (Raises e) \<Rightarrow> Some (Raises e)
                 | Some (Returns (s, w2)) \<Rightarrow> recv_available R t1 w2 (ucs @ s))
           else Some (Returns (ucs, t1, w1))))"

text \<open>
  \<^verbatim>\<open>
  while not ks and self.kbhit(_timeleft(stime, timeout)):
      ucs += _decode_next()
      ks = resolve(text=ucs)
  \<close>
  \<open>resolve\<close> is \<open>keyboard.resolve_sequence\<close> applied to the key map and the key
  codes of the Terminal; the keyboard module is not part of the sources at hand, so it
  is a parameter.
\<close>

partial_function (option) recv_until_resolved ::
  "resolver \<Rightarrow> (string \<Rightarrow> keystroke) \<Rightarrow> terminal \<Rightarrow> world \<Rightarrow> rat \<Rightarrow> rat option \<Rightarrow> string
     \<Rightarrow> keystroke \<Rightarrow> (keystroke \<times> string \<times> terminal \<times> world) outcome option" where
  "recv_until_resolved R resolve t w stime timeout ucs ks =
     (if ks_text ks = []
      then (case kbhit R t w (timeleft w stime timeout) of
              None \<Rightarrow> None
            | Some (Raises e) \<Rightarrow> Some (Raises e)
            | Some (Returns (hit, t1, w1)) \<Rightarrow>
                (if hit
                 then (case decode_next w1 of
                         None \<Rightarrow> None
                       | Some (Raises e) \<Rightarrow> Some (Raises e)
                       | Some (Returns (s, w2)) \<Rightarrow>
                           recv_until_resolved R resolve t1 w2 stime timeout (ucs @ s)
                             (resolve (ucs @ s)))
                 else Some (Returns (ks, ucs, t1, w1))))
      else Some (Returns (ks, ucs, t, w)))"

text \<open>
  \<open>ks.code is self.KEY_ESCAPE\<close>: \<open>ks.code\<close> is \<open>None\<close> or an int object, and
  \<open>KEY_ESCAPE\<close> is the attribute that the constructor binds with \<open>setattr\<close> to the
  key code object of the key table (resolved by \<open>__getattr__\<close> when it is not bound).
  The test is for the same object, not for the same value: \<open>None\<close> is one object, an
  int object is the same as another by \<open>same_object\<close>, and an object of another type
  is never the same as \<open>None\<close> or an int object.
\<close>

fun code_is :: "int_obj option \<Rightarrow> pyobj \<Rightarrow> bool" where
  "code_is None v = (v = PyNone)"
| "code_is (Some c) (PyInt k) = same_object c k"
| "code_is (Some c) v = False"

definition is_key_escape :: "resolver \<Rightarrow> terminal \<Rightarrow> keystroke \<Rightarrow> bool \<times> terminal" where
  "is_key_escape R t ks =
     (case instance_getattr R t ''KEY_ESCAPE'' of
        (key_escape, t1) \<Rightarrow> (code_is (ks_code ks) key_escape, t1))"

text \<open>
  \<^verbatim>\<open>
  while (ks.code is self.KEY_ESCAPE and
         self.kbhit(_timeleft(esctime, esc_delay))):
      ucs += _decode_next()
      ks = resolve(text=ucs)
  \<close>
\<close>

partial_function (option) escape_wait ::
  "resolver \<Rightarrow> (string \<Rightarrow> keystroke) \<Rightarrow> terminal \<Rightarrow> world \<Rightarrow> rat \<Rightarrow> rat option \<Rightarrow> string
     \<Rightarrow> keystroke \<Rightarrow> (keystroke \<times> string \<times> terminal \<times> world) outcome option" where
  "escape_wait R resolve t w esctime esc_delay ucs ks =
     (case is_key_escape R t ks of
        (esc, t0) \<Rightarrow>
          (if esc
           then (case kbhit R t0 w (timeleft w esctime esc_delay) of
                   None \<Rightarrow> None
                 | Some (Raises e) \<Rightarrow> Some (Raises e)
                 | Some (Returns (hit, t1, w1)) \<Rightarrow>
                     (if hit
                      then (case decode_next w1 of
                              None \<Rightarrow> None
                            | Some (Raises e) \<Rightarrow> Some (Raises e)
                            | Some (Returns (s, w2)) \<Rightarrow>
                                escape_wait R resolve t1 w2 esctime esc_delay (ucs @ s)
                                  (resolve (ucs @ s)))
                      else Some (Returns (ks, ucs, t1, w1))))
           else Some (Returns (ks, ucs, t0, w))))"

text \<open>
  \<open>deque.extendleft(items)\<close> appends the items one by one at the left end.
\<close>

definition extendleft :: "string \<Rightarrow> string \<Rightarrow> string" where
  "extendleft items buf = foldl (\<lambda>d c. c # d) buf items"

text \<open>
  \<^verbatim>\<open>
  def inkey(self, timeout=None, esc_delay=0.35):
      ...
      stime = time.time()
      ucs = u''
      while self._keyboard_buf:
          ucs += self._keyboard_buf.pop()
      while self.kbhit():
          ucs += _decode_next()
      ks = resolve(text=ucs)
      while not ks and self.kbhit(_timeleft(stime, timeout)):
          ...
      if ks.code is self.KEY_ESCAPE:
          esctime = time.time()
          while (ks.code is self.KEY_ESCAPE and
                 self.kbhit(_timeleft(esctime, esc_delay))):
              ...
      self._keyboard_buf.extendleft(ucs[len(ks):])
      return ks
  \<close>
  \<open>inkey_resolve\<close> is the function up to the test for the Escape key;
  \<open>inkey_collect\<close> is the function up to its last two statements. Both return the
  keystroke together with \<open>ucs\<close>, the text that the call has considered so far.
  \<open>inkey\<close> adds the last two statements.
\<close>

definition inkey_resolve ::
  "resolver \<Rightarrow> (string \<Rightarrow> keystroke) \<Rightarrow> terminal \<Rightarrow> world \<Rightarrow> rat option
     \<Rightarrow> (keystroke \<times> string \<times> terminal \<times> world) outcome option" where
  "inkey_resolve R resolve t w timeout =
     (let stime = clock w in
      case rebuffer [] (keyboard_buf t) of
        (ucs0, buf0) \<Rightarrow>
          (case recv_available R (t\<lparr>keyboard_buf := buf0\<rparr>) w ucs0 of
             None \<Rightarrow> None
           | Some (Raises e) \<Rightarrow> Some (Raises e)
           | Some (Returns (ucs1, t1, w1)) \<Rightarrow>
               recv_until_resolved R resolve t1 w1 stime timeout ucs1 (resolve ucs1)))"

definition inkey_collect ::
  "resolver \<Rightarrow> (string \<Rightarrow> keystroke) \<Rightarrow> terminal \<Rightarrow> world \<Rightarrow> rat option \<Rightarrow> rat option
     \<Rightarrow> (keystroke \<times> string \<times> terminal \<times> world) outcome option" where
  "inkey_collect R resolve t w timeout esc_delay =
     (case inkey_resolve R resolve t w timeout of
        None \<Rightarrow> None
      | Some (Raises e) \<Rightarrow> Some (Raises e)
      | Some (Returns (ks, ucs, t2, w2)) \<Rightarrow>
          (case is_key_escape R t2 ks of
             (esc, t3) \<Rightarrow>
               (if esc
                then escape_wait R resolve t3 w2 (clock w2) esc_delay ucs ks
                else Some (Returns (ks, ucs, t3, w2)))))"

definition inkey ::
  "resolver \<Rightarrow> (string \<Rightarrow> keystroke) \<Rightarrow> terminal \<Rightarrow> world \<Rightarrow> rat option \<Rightarrow> rat option
     \<Rightarrow> (keystroke \<times> terminal \<times> world) outcome option" where
  "inkey R resolve t w timeout esc_delay =
     (case inkey_collect R resolve t w timeout esc_delay of
        None \<Rightarrow> None
      | Some (Raises e) \<Rightarrow> Some (Raises e)
      | Some (Returns (ks, ucs, t1, w1)) \<Rightarrow>
          Some (Returns (ks,
            t1\<lparr>keyboard_buf := extendleft (drop (length (ks_text ks)) ucs) (keyboard_buf t1)\<rparr>,
            w1)))"

text \<open>
  A Terminal whose keyboard can be polled: it has a keyboard descriptor, and no
  \<open>setattr\<close> has bound \<open>keyboard_fd\<close> to \<open>None\<close>.
\<close>

definition interactive :: "terminal \<Rightarrow> bool" where
  "interactive t = (stream_kb t \<noteq> None \<and> map_of (attrs t) ''keyboard_fd'' \<noteq> Some PyNone)"

text \<open>
  \<open>decoded n w\<close>: the text that the decoder yields for the first \<open>n\<close> bytes waiting
  on the keyboard.
\<close>

definition byte_text :: "rat \<times> string option \<Rightarrow> string" where
  "byte_text b = (case snd b of None \<Rightarrow> [] | Some s \<Rightarrow> s)"

definition decoded :: "nat \<Rightarrow> world \<Rightarrow> string" where
  "decoded n w = concat (map byte_text (take n (pending w)))"

text \<open>
  Modelled from the spec: \<open>keyboard.resolve_sequence\<close> (the keyboard module is not
  part of the sources at hand). Section 4.4, step 3 of the specification: find the
  longest known input-key sequence that is a literal prefix of the buffered text;
  otherwise the event is the literal first character, and the empty event when there is
  no text. The key map holds the key code objects of the key table, so the code of a
  keystroke is the very object that the constructor binds to the key's name. It is used
  for the concrete inputs below only; the theorems about \<open>inkey\<close> hold for every
  \<open>resolve\<close>.
\<close>

fun longest_match :: "(string \<times> int_obj) list \<Rightarrow> string \<Rightarrow> (string \<times> int_obj) option" where
  "longest_match [] text = None"
| "longest_match ((seq, code) # rest) text =
     (case longest_match rest text of
        None \<Rightarrow> (if seq \<noteq> [] \<and> take (length seq) text = seq then Some (seq, code) else None)
      | Some (seq', code') \<Rightarrow>
          (if take (length seq) text = seq \<and> length seq' < length seq then Some (seq, code)
           else Some (seq', code')))"

definition key_name :: "(int_obj \<times> string) list \<Rightarrow> int_obj \<Rightarrow> string option" where
  "key_name codes code = map_of (map (\<lambda>(c, n). (int_value c, n)) codes) (int_value code)"

definition resolve_sequence ::
  "(string \<times> int_obj) list \<Rightarrow> (int_obj \<times> string) list \<Rightarrow> string \<Rightarrow> keystroke" where
  "resolve_sequence mapper codes text =
     (case longest_match mapper text of
        Some (seq, code) \<Rightarrow> \<lparr>ks_text = seq, ks_code = Some code, ks_name = key_name codes code\<rparr>
      | None \<Rightarrow> \<lparr>ks_text = take 1 text, ks_code = None, ks_name = None\<rparr>)"

section \<open>number_of_colors\<close>

text \<open>
  \<^verbatim>\<open>return max(0, self.does_styling and curses.tigetnum('colors') or -1)\<close>

  \<open>tigetnum\<close> is the curses collaborator (\<open>-1\<close>: no colour support, \<open>-2\<close>: no
  such capability). \<open>X and Y or Z\<close> is \<open>Y\<close> when both \<open>X\<close> and \<open>Y\<close> are true
  and \<open>Z\<close> otherwise.
\<close>

definition number_of_colors :: "(string \<Rightarrow> int) \<Rightarrow> terminal \<Rightarrow> int" where
  "number_of_colors tigetnum t =
     max 0 (if does_styling t \<and> tigetnum ''colors'' \<noteq> 0 then tigetnum ''colors'' else - 1)"

section \<open>Concrete inputs\<close>

text \<open>
  A process environment with two terminal kinds, two key codes and terminals on the
  descriptors 0 and 1; a fresh process; the key map of the two keys (Escape, and the
  up arrow \<open>ESC [ A\<close>); and the Terminals that the constructor builds from them.
\<close>

definition demo_env :: sys_env where
  "demo_env =
     \<lparr>environ = [(''TERM'', ''xterm'')], stdout_fileno = 1, stdin_fileno = 0,
      ttys = [0, 1], terminfo = [''xterm'', ''vt100''],
      winsizes = [(Descriptor 1, 24, 132, 0, 0)],
      keycodes = [(IntObj 1 361, ''KEY_ESCAPE''), (IntObj 2 259, ''KEY_UP'')]\<rparr>"

definition fresh_process :: process where
  "fresh_process = \<lparr>cur_term = None, warnings = [], initialised_setupterm = False\<rparr>"

definition demo_keymap :: "(string \<times> int_obj) list" where
  "demo_keymap = [([CHR 0x1B], IntObj 1 361), ([CHR 0x1B, CHR ''['', CHR ''A''], IntObj 2 259)]"

definition demo_resolve :: "string \<Rightarrow> keystroke" where
  "demo_resolve = resolve_sequence demo_keymap (keycodes demo_env)"

definition demo_resolver :: resolver where
  "demo_resolver t attr = []"

text \<open>\<open>Terminal()\<close>: standard output, keyboard on standard input, styling.\<close>

definition demo_terminal :: terminal where
  "demo_terminal = fst (terminal_init demo_env fresh_process None None (Some False))"

text \<open>\<open>Terminal(stream=StringIO())\<close>: a stream with no descriptor, no styling.\<close>

definition piped_terminal :: terminal where
  "piped_terminal =
     fst (terminal_init demo_env fresh_process None (Some (PyStream None)) (Some False))"

text \<open>
  An environment in which no window-size query succeeds and \<open>LINES\<close> is not a number.
\<close>

definition no_tty_env :: sys_env where
  "no_tty_env =
     \<lparr>environ = [(''LINES'', ''abc'')], stdout_fileno = 1, stdin_fileno = 0,
      ttys = [], terminfo = [], winsizes = [], keycodes = []\<rparr>"

text \<open>
  An environment in which only the query on \<open>sys.__stdout__\<close> succeeds.
\<close>

definition stdout_env :: sys_env where
  "stdout_env =
     \<lparr>environ = [], stdout_fileno = 1, stdin_fileno = 0,
      ttys = [], terminfo = [], winsizes = [(StdoutFile, 50, 100, 0, 0)], keycodes = []\<rparr>"

text \<open>An environment in which no window-size query succeeds and no variable is set.\<close>

definition bare_env :: sys_env where
  "bare_env =
     \<lparr>environ = [], stdout_fileno = 1, stdin_fileno = 0,
      ttys = [], terminfo = [], winsizes = [], keycodes = []\<rparr>"

text \<open>
  The capabilities of an ANSI terminal, as far as \<open>location\<close> uses them, for
  coordinates below 9 (one digit).
\<close>

definition digit_text :: "int \<Rightarrow> string" where
  "digit_text n = [''0123456789'' ! nat n]"

definition ansi_caps :: capabilities where
  "ansi_caps =
     \<lparr>save = [CHR 0x1B] @ ''[s'', restore = [CHR 0x1B] @ ''[u'',
      move = (\<lambda>row col. [CHR 0x1B] @ ''['' @ digit_text (row + 1) @ '';'' @ digit_text (col + 1) @ ''H''),
      move_x = (\<lambda>col. [CHR 0x1B] @ ''['' @ digit_text (col + 1) @ ''G''),
      move_y = (\<lambda>row. [CHR 0x1B] @ ''['' @ digit_text (row + 1) @ ''d'')\<rparr>"

text \<open>A \<open>with\<close> body that writes \<open>hi\<close>, and one that writes \<open>hi\<close> and raises.\<close>

definition body_hi :: with_body where
  "body_hi out = (None, out @ ''hi'')"

definition body_raising :: with_body where
  "body_raising out = (Some (BodyError ''boom''), out @ ''hi'')"

text \<open>
  A stand-in for a word wrapper on texts shorter than the width: every white space
  character becomes a space and the text stays on one line.
\<close>

definition one_line_wrapper :: wrapper where
  "one_line_wrapper w kw text = Inr [map (\<lambda>c. if is_space c then CHR '' '' else c) text]"

text \<open>
  The process after the first \<open>Terminal()\<close>, and two answers of
  \<open>curses.tigetnum\<close>: the capability is absent, and 256 colours.
\<close>

definition xterm_process :: process where
  "xterm_process = snd (terminal_init demo_env fresh_process None None (Some False))"

definition colors_absent :: "string \<Rightarrow> int" where
  "colors_absent name = - 2"

definition colors_256 :: "string \<Rightarrow> int" where
  "colors_256 name = 256"

text \<open>Keyword arguments that set, clear and omit \<open>break_long_words\<close>.\<close>

definition kw_break :: kwargs where
  "kw_break = [(''break_long_words'', PyBool True)]"

definition kw_no_break :: kwargs where
  "kw_no_break = [(''break_long_words'', PyBool False)]"

text \<open>The two-line text \<open>a\<close>, line feed, \<open>b\<close>.\<close>

definition two_lines :: string where
  "two_lines = ''a'' @ [CHR 0x0A] @ ''b''"


text \<open>A keyboard on which one byte, the letter \<open>x\<close>, is waiting.\<close>

definition one_byte_world :: world where
  "one_byte_world = \<lparr>clock = 0, pending = [(0, Some ''x'')], eof = None\<rparr>"

text \<open>
  Keyboards for the examples, all on a stream that stays open: the letters \<open>a\<close>,
  \<open>b\<close>, \<open>c\<close> waiting at once; a single Escape byte; and Escape followed, a tenth
  of a time unit apart, by the rest of the up-arrow sequence.
\<close>

definition abc_world :: world where
  "abc_world =
     \<lparr>clock = 0, pending = [(0, Some ''a''), (0, Some ''b''), (0, Some ''c'')], eof = None\<rparr>"

definition esc_world :: world where
  "esc_world = \<lparr>clock = 0, pending = [(0, Some [CHR 0x1B])], eof = None\<rparr>"


definition key_a :: keystroke where
  "key_a = \<lparr>ks_text = ''a'', ks_code = None, ks_name = None\<rparr>"

definition key_escape :: keystroke where
  "key_escape = \<lparr>ks_text = [CHR 0x1B], ks_code = Some (IntObj 1 361), ks_name = Some ''KEY_ESCAPE''\<rparr>"

text \<open>The Terminal after its first keyboard poll: \<open>keyboard_fd\<close> is cached.\<close>

definition polled_terminal :: terminal where
  "polled_terminal = demo_terminal\<lparr>attrs := (''keyboard_fd'', FormattingString []) # attrs demo_terminal\<rparr>"

text \<open>The Terminal after the call that returned \<open>a\<close> from \<open>abc\<close>.\<close>

definition bc_terminal :: terminal where
  "bc_terminal = polled_terminal\<lparr>keyboard_buf := ''cb''\<rparr>"

definition key_b :: keystroke where
  "key_b = \<lparr>ks_text = ''b'', ks_code = None, ks_name = None\<rparr>"


definition quiet_world :: world where
  "quiet_world = \<lparr>clock = 0, pending = [], eof = None\<rparr>"





section \<open>Verified properties\<close>

subsection \<open>The concrete Terminals, evaluated\<close>

lemma demo_init:
  "terminal_init demo_env fresh_process None None (Some False) =
     (\<lparr>stream_kb = Some 0, is_a_tty = True, does_styling = True,
       init_descriptor = Some 1, kind = Some ''xterm'',
       attrs = [(''KEY_UP'', PyInt (IntObj 2 259)), (''KEY_ESCAPE'', PyInt (IntObj 1 361))],
       keyboard_buf = []\<rparr>,
      \<lparr>cur_term = Some ''xterm'', warnings = [], initialised_setupterm = True\<rparr>)"
  by (simp add: terminal_init_def demo_env_def fresh_process_def requested_kind_def
      environ_get_def setupterm_succeeds_def key_attrs_def Let_def)

lemma demo_terminal_eq:
  "demo_terminal =
     \<lparr>stream_kb = Some 0, is_a_tty = True, does_styling = True,
      init_descriptor = Some 1, kind = Some ''xterm'',
      attrs = [(''KEY_UP'', PyInt (IntObj 2 259)), (''KEY_ESCAPE'', PyInt (IntObj 1 361))],
      keyboard_buf = []\<rparr>"
  by (simp add: demo_terminal_def demo_init)

lemma xterm_process_eq:
  "xterm_process = \<lparr>cur_term = Some ''xterm'', warnings = [], initialised_setupterm = True\<rparr>"
  by (simp add: xterm_process_def demo_init)

lemma vt100_init:
  "terminal_init demo_env xterm_process (Some ''vt100'') None (Some False) =
     (\<lparr>stream_kb = Some 0, is_a_tty = True, does_styling = True,
       init_descriptor = Some 1, kind = Some ''vt100'',
       attrs = [(''KEY_UP'', PyInt (IntObj 2 259)), (''KEY_ESCAPE'', PyInt (IntObj 1 361))],
       keyboard_buf = []\<rparr>,
      \<lparr>cur_term = Some ''xterm'', warnings = [KindMismatch ''vt100'' ''xterm''],
       initialised_setupterm = True\<rparr>)"
  by (simp add: xterm_process_eq terminal_init_def demo_env_def requested_kind_def
      environ_get_def setupterm_succeeds_def key_attrs_def Let_def)

lemma piped_terminal_eq:
  "piped_terminal =
     \<lparr>stream_kb = None, is_a_tty = False, does_styling = False,
      init_descriptor = Some 1, kind = Some ''xterm'', attrs = [], keyboard_buf = []\<rparr>"
  by (simp add: piped_terminal_def terminal_init_def demo_env_def fresh_process_def
      requested_kind_def environ_get_def Let_def)

subsection \<open>The constructor\<close>

lemma terminal_init_process:
  "does_styling (fst (terminal_init env p kind_arg stream_arg force_styling)) \<Longrightarrow>
   snd (terminal_init env p kind_arg stream_arg force_styling) =
     (if cur_term p = None \<or> cur_term p = Some (requested_kind env kind_arg)
      then p\<lparr>cur_term := Some (requested_kind env kind_arg), initialised_setupterm := True\<rparr>
      else p\<lparr>warnings := warnings p @
                 [KindMismatch (requested_kind env kind_arg) (the (cur_term p))],
             initialised_setupterm := True\<rparr>)"
  by (auto simp: terminal_init_def Let_def split: if_splits)

lemma terminal_init_kind:
  "does_styling (fst (terminal_init env p kind_arg stream_arg force_styling)) \<Longrightarrow>
   kind (fst (terminal_init env p kind_arg stream_arg force_styling)) =
     Some (requested_kind env kind_arg)"
  by (simp add: terminal_init_def Let_def split: if_splits)

lemma terminal_init_cur_term_kept:
  "cur_term p = Some c \<Longrightarrow>
   cur_term (snd (terminal_init env p kind_arg stream_arg force_styling)) = Some c"
  by (simp add: terminal_init_def Let_def)

lemma construct_all_cur_term_kept:
  "cur_term p = Some c \<Longrightarrow> cur_term (construct_all env p calls) = Some c"
  by (induction env p calls rule: construct_all.induct)
     (simp_all add: terminal_init_cur_term_kept)

lemma terminal_init_no_styling_attrs:
  "\<not> does_styling (fst (terminal_init env p kind_arg stream_arg force_styling)) \<Longrightarrow>
   attrs (fst (terminal_init env p kind_arg stream_arg force_styling)) = []"
  by (auto simp: terminal_init_def Let_def split: if_splits)

lemma terminal_init_unstyled_process:
  "\<not> does_styling (fst (terminal_init env p kind_arg stream_arg force_styling)) \<Longrightarrow>
   cur_term (snd (terminal_init env p kind_arg stream_arg force_styling)) = cur_term p \<and>
   (warnings (snd (terminal_init env p kind_arg stream_arg force_styling)) = warnings p \<or>
    warnings (snd (terminal_init env p kind_arg stream_arg force_styling)) =
      warnings p @ [FailedSetupterm (requested_kind env kind_arg)])"
  by (auto simp: terminal_init_def Let_def split: if_splits)

lemma piped_vt100_init:
  "terminal_init demo_env fresh_process (Some ''vt100'') (Some (PyStream None)) (Some False) =
     (\<lparr>stream_kb = None, is_a_tty = False, does_styling = False,
       init_descriptor = Some 1, kind = Some ''vt100'', attrs = [], keyboard_buf = []\<rparr>,
      fresh_process)"
  by (simp add: terminal_init_def demo_env_def fresh_process_def requested_kind_def Let_def)

lemma bogus_init:
  "terminal_init demo_env fresh_process (Some ''bogus'') None (Some True) =
     (\<lparr>stream_kb = Some 0, is_a_tty = True, does_styling = False,
       init_descriptor = Some 1, kind = None, attrs = [], keyboard_buf = []\<rparr>,
      fresh_process\<lparr>warnings := [FailedSetupterm ''bogus'']\<rparr>)"
  by (simp add: terminal_init_def demo_env_def fresh_process_def requested_kind_def
      setupterm_succeeds_def Let_def)

lemma terminal_init_unstyled:
  "does_styling (fst (terminal_init env p kind_arg stream_arg None)) = False"
  "stream_kb (fst (terminal_init env p kind_arg (Some s) force_styling)) = None"
  by (simp_all add: terminal_init_def Let_def)

text \<open>
  C7. The kind of the process is a singleton. When the constructor returns a styling
  Terminal: if no kind was recorded, its kind is recorded and nothing is warned; if its
  kind is the recorded one, the record stays and nothing is warned; if its kind differs,
  the record stays and exactly one warning naming both kinds is added. When the
  constructor returns a Terminal that does no styling (the stream is no terminal, or
  \<open>setupterm\<close> failed), the record is left as it was, so the kind recorded is that of
  the first styling Terminal. A recorded kind is never changed by this or any later
  construction.
\<close>

theorem cur_term_singleton:
  assumes "terminal_init env p kind_arg stream_arg force_styling = (t, p')"
  shows "(\<forall>c. cur_term p = Some c \<longrightarrow>
            cur_term p' = Some c \<and> cur_term (construct_all env p' calls) = Some c) \<and>
         (does_styling t \<longrightarrow>
            (\<exists>k. kind t = Some k \<and>
               (cur_term p = None \<longrightarrow> cur_term p' = Some k \<and> warnings p' = warnings p) \<and>
               (cur_term p = Some k \<longrightarrow> cur_term p' = Some k \<and> warnings p' = warnings p) \<and>
               (\<forall>c. cur_term p = Some c \<and> c \<noteq> k \<longrightarrow>
                  cur_term p' = Some c \<and> warnings p' = warnings p @ [KindMismatch k c]))) \<and>
         (\<not> does_styling t \<longrightarrow>
            cur_term p' = cur_term p \<and>
            (warnings p' = warnings p \<or>
             warnings p' = warnings p @ [FailedSetupterm (requested_kind env kind_arg)]))"
proof -
  have t: "t = fst (terminal_init env p kind_arg stream_arg force_styling)"
    and p': "p' = snd (terminal_init env p kind_arg stream_arg force_styling)"
    using assms by simp_all
  have kept: "\<forall>c. cur_term p = Some c \<longrightarrow>
            cur_term p' = Some c \<and> cur_term (construct_all env p' calls) = Some c"
    unfolding p' by (simp add: terminal_init_cur_term_kept construct_all_cur_term_kept)
  have styled: "\<exists>k. kind t = Some k \<and>
               (cur_term p = None \<longrightarrow> cur_term p' = Some k \<and> warnings p' = warnings p) \<and>
               (cur_term p = Some k \<longrightarrow> cur_term p' = Some k \<and> warnings p' = warnings p) \<and>
               (\<forall>c. cur_term p = Some c \<and> c \<noteq> k \<longrightarrow>
                  cur_term p' = Some c \<and> warnings p' = warnings p @ [KindMismatch k c])"
    if s: "does_styling t"
  proof -
    have k: "kind t = Some (requested_kind env kind_arg)"
      using s unfolding t by (rule terminal_init_kind)
    have "p' = (if cur_term p = None \<or> cur_term p = Some (requested_kind env kind_arg)
            then p\<lparr>cur_term := Some (requested_kind env kind_arg),
                   initialised_setupterm := True\<rparr>
            else p\<lparr>warnings := warnings p @
                       [KindMismatch (requested_kind env kind_arg) (the (cur_term p))],
                   initialised_setupterm := True\<rparr>)"
      using s unfolding t p' by (rule terminal_init_process)
    with k show ?thesis by auto
  qed
  have unstyled: "cur_term p' = cur_term p \<and>
            (warnings p' = warnings p \<or>
             warnings p' = warnings p @ [FailedSetupterm (requested_kind env kind_arg)])"
    if "\<not> does_styling t"
    using that unfolding t p' by (rule terminal_init_unstyled_process)
  show ?thesis
    by (intro conjI impI kept styled unstyled)
qed

theorem cur_term_singleton_witness:
  "cur_term xterm_process = Some ''xterm'' \<and> warnings xterm_process = [] \<and>
   cur_term (snd (terminal_init demo_env xterm_process (Some ''vt100'') None (Some False)))
     = Some ''xterm'' \<and>
   warnings (snd (terminal_init demo_env xterm_process (Some ''vt100'') None (Some False)))
     = [KindMismatch ''vt100'' ''xterm''] \<and>
   cur_term (construct_all demo_env xterm_process
      [(Some ''vt100'', None, Some False), (None, None, Some True)]) = Some ''xterm'' \<and>
   cur_term (snd (terminal_init demo_env fresh_process (Some ''vt100'')
      (Some (PyStream None)) (Some False))) = None \<and>
   cur_term (snd (terminal_init demo_env fresh_process (Some ''bogus'') None (Some True)))
     = None \<and>
   cur_term (construct_all demo_env fresh_process
      [(Some ''vt100'', Some (PyStream None), Some False), (None, None, Some False)])
     = Some ''xterm''"
proof -
  have a: "terminal_init demo_env fresh_process None None (Some False)
             = (demo_terminal, xterm_process)"
    by (simp add: demo_terminal_def xterm_process_def)
  have b: "terminal_init demo_env xterm_process (Some ''vt100'') None (Some False)
             = (fst (terminal_init demo_env xterm_process (Some ''vt100'') None (Some False)),
                snd (terminal_init demo_env xterm_process (Some ''vt100'') None (Some False)))"
    by simp
  have facts: "does_styling demo_terminal" "kind demo_terminal = Some ''xterm''"
    "cur_term fresh_process = None" "warnings fresh_process = []"
    "does_styling (fst (terminal_init demo_env xterm_process (Some ''vt100'') None (Some False)))"
    "kind (fst (terminal_init demo_env xterm_process (Some ''vt100'') None (Some False)))
       = Some ''vt100''"
    by (simp_all add: demo_terminal_eq fresh_process_def vt100_init)
  from cur_term_singleton [OF a, of "[]"] facts
  have 1: "cur_term xterm_process = Some ''xterm''" "warnings xterm_process = []"
    by auto
  from cur_term_singleton [OF b, of "[(None, None, Some True)]"] facts 1
  have 2: "cur_term (snd (terminal_init demo_env xterm_process (Some ''vt100'') None (Some False)))
     = Some ''xterm''"
    "warnings (snd (terminal_init demo_env xterm_process (Some ''vt100'') None (Some False)))
     = [KindMismatch ''vt100'' ''xterm'']"
    "cur_term (construct_all demo_env
        (snd (terminal_init demo_env xterm_process (Some ''vt100'') None (Some False)))
        [(None, None, Some True)]) = Some ''xterm''"
    by auto
  have 3: "cur_term (snd (terminal_init demo_env fresh_process (Some ''vt100'')
      (Some (PyStream None)) (Some False))) = None"
    using cur_term_singleton [OF piped_vt100_init, of "[]"] facts(3)
    by (simp add: piped_vt100_init)
  have 4: "cur_term (snd (terminal_init demo_env fresh_process (Some ''bogus'') None (Some True)))
     = None"
    using cur_term_singleton [OF bogus_init, of "[]"] facts(3)
    by (simp add: bogus_init)
  have 5: "cur_term (construct_all demo_env fresh_process
      [(Some ''vt100'', Some (PyStream None), Some False), (None, None, Some False)])
     = Some ''xterm''"
    using 1 by (simp add: piped_vt100_init xterm_process_def)
  from 1 2 3 4 5 show ?thesis by simp
qed

subsection \<open>number_of_colors\<close>

text \<open>
  C9. For every Terminal, \<open>number_of_colors\<close> is a non-negative integer. It is 0 when
  \<open>does_styling\<close> is false or when the numeric capability \<open>colors\<close> is absent or
  reports no colour support (a value below 1), and it is the reported value otherwise.
\<close>

theorem number_of_colors_nonneg:
  "0 \<le> number_of_colors tigetnum t \<and>
   (\<not> does_styling t \<or> tigetnum ''colors'' \<le> 0 \<longrightarrow> number_of_colors tigetnum t = 0) \<and>
   (does_styling t \<and> 0 < tigetnum ''colors'' \<longrightarrow>
      number_of_colors tigetnum t = tigetnum ''colors'')"
  by (auto simp: number_of_colors_def)

theorem number_of_colors_nonneg_witness:
  "number_of_colors colors_absent demo_terminal = 0 \<and>
   number_of_colors colors_256 piped_terminal = 0 \<and>
   number_of_colors colors_256 demo_terminal = 256"
  using number_of_colors_nonneg [of colors_absent demo_terminal]
        number_of_colors_nonneg [of colors_256 piped_terminal]
        number_of_colors_nonneg [of colors_256 demo_terminal]
  by (simp add: colors_absent_def colors_256_def demo_terminal_eq piped_terminal_eq)

subsection \<open>height and width\<close>

lemma query_candidates_no_error: "query_candidates env fds \<noteq> Some (Inl e)"
  by (induction env fds rule: query_candidates.induct)
     (auto simp: winsize_def split: sum.splits option.splits)

lemma py_int_error: "py_int s = Inl e \<Longrightarrow> e = ValueError"
  by (auto simp: py_int_def Let_def split: if_splits)

lemma height_and_width_error: "height_and_width env t = Inl e \<Longrightarrow> e = ValueError"
  using query_candidates_no_error [of env]
  by (auto simp: height_and_width_def dest: py_int_error split: option.splits sum.splits)

lemma height_error: "height env t = Inl e \<Longrightarrow> e = ValueError"
  by (cases "height_and_width env t") (auto simp: height_def dest: height_and_width_error)

lemma width_error: "width env t = Inl e \<Longrightarrow> e = ValueError"
  by (cases "height_and_width env t") (auto simp: width_def dest: height_and_width_error)

lemma height_width_queried:
  assumes "init_descriptor t = Some fd" "map_of (winsizes env) (Descriptor fd) = Some (r, c, x, y)"
  shows "height env t = Inr r \<and> width env t = Inr c"
  using assms by (simp add: height_def width_def height_and_width_def winsize_def)

lemma height_width_stdout:
  assumes "\<forall>fd. init_descriptor t = Some fd \<longrightarrow> map_of (winsizes env) (Descriptor fd) = None"
    and "map_of (winsizes env) StdoutFile = Some (r, c, x, y)"
  shows "height env t = Inr r \<and> width env t = Inr c"
  using assms
  by (cases "init_descriptor t")
     (simp_all add: height_def width_def height_and_width_def winsize_def)

lemma height_width_fallback:
  assumes "query_candidates env [map_option Descriptor (init_descriptor t), Some StdoutFile] = None"
    and "py_int (environ_get env ''LINES'' ''25'') = Inr r"
    and "py_int (environ_get env ''COLUMNS'' ''80'') = Inr c"
  shows "height env t = Inr r \<and> width env t = Inr c"
  using assms by (simp add: height_def width_def height_and_width_def)

lemma py_int_25: "py_int ''25'' = Inr 25"
  by (simp add: py_int_def py_strip_def is_space_def is_digit_def digits_value_def)

lemma py_int_80: "py_int ''80'' = Inr 80"
  by (simp add: py_int_def py_strip_def is_space_def is_digit_def digits_value_def)

lemma height_width_default:
  assumes "query_candidates env [map_option Descriptor (init_descriptor t), Some StdoutFile] = None"
    and "map_of (environ env) ''LINES'' = None" and "map_of (environ env) ''COLUMNS'' = None"
  shows "height env t = Inr 25 \<and> width env t = Inr 80"
  using assms by (intro height_width_fallback) (simp_all add: environ_get_def py_int_25 py_int_80)

lemma height_width_bad_variable:
  assumes "query_candidates env [map_option Descriptor (init_descriptor t), Some StdoutFile] = None"
    and "py_int (environ_get env ''LINES'' ''25'') = Inl e \<or>
         py_int (environ_get env ''COLUMNS'' ''80'') = Inl e"
  shows "height env t = Inl ValueError \<and> width env t = Inl ValueError"
  using assms
  by (auto simp: height_def width_def height_and_width_def dest: py_int_error split: sum.splits)

text \<open>
  C8, as the code has it. \<open>height\<close> and \<open>width\<close> never raise \<open>IOError\<close> and never
  return \<open>None\<close>. When the query on the Terminal's own descriptor succeeds they return
  its rows and columns; when that query fails or there is no descriptor, and the query
  on \<open>sys.__stdout__\<close> succeeds, they return the rows and columns of that. When no
  query succeeds they return \<open>int(LINES)\<close> and
  \<open>int(COLUMNS)\<close>, with 25 and 80 for a variable that is not set; a variable that is
  set to a text that is no integer makes both properties raise \<open>ValueError\<close>.
\<close>

theorem height_width_amended:
  "height env t \<noteq> Inl IOError \<and> width env t \<noteq> Inl IOError \<and>
   (\<forall>fd r c x y. init_descriptor t = Some fd \<and>
        map_of (winsizes env) (Descriptor fd) = Some (r, c, x, y)
        \<longrightarrow> height env t = Inr r \<and> width env t = Inr c) \<and>
   (\<forall>r c x y. (\<forall>fd. init_descriptor t = Some fd \<longrightarrow>
                   map_of (winsizes env) (Descriptor fd) = None) \<and>
        map_of (winsizes env) StdoutFile = Some (r, c, x, y)
        \<longrightarrow> height env t = Inr r \<and> width env t = Inr c) \<and>
   (query_candidates env [map_option Descriptor (init_descriptor t), Some StdoutFile] = None \<longrightarrow>
      (\<forall>r c. py_int (environ_get env ''LINES'' ''25'') = Inr r \<and>
             py_int (environ_get env ''COLUMNS'' ''80'') = Inr c \<longrightarrow>
             height env t = Inr r \<and> width env t = Inr c) \<and>
      (map_of (environ env) ''LINES'' = None \<and> map_of (environ env) ''COLUMNS'' = None \<longrightarrow>
             height env t = Inr 25 \<and> width env t = Inr 80) \<and>
      (\<forall>e. py_int (environ_get env ''LINES'' ''25'') = Inl e \<or>
           py_int (environ_get env ''COLUMNS'' ''80'') = Inl e \<longrightarrow>
             height env t = Inl ValueError \<and> width env t = Inl ValueError))"
proof -
  have 1: "height env t \<noteq> Inl IOError" using height_error [of env t IOError] by auto
  have 2: "width env t \<noteq> Inl IOError" using width_error [of env t IOError] by auto
  have 3: "\<forall>fd r c x y. init_descriptor t = Some fd \<and>
        map_of (winsizes env) (Descriptor fd) = Some (r, c, x, y)
        \<longrightarrow> height env t = Inr r \<and> width env t = Inr c"
  proof (intro allI impI, elim conjE)
    fix fd r c x y
    assume "init_descriptor t = Some fd"
      "map_of (winsizes env) (Descriptor fd) = Some (r, c, x, y)"
    then show "height env t = Inr r \<and> width env t = Inr c"
      by (rule height_width_queried)
  qed
  have 4: "\<forall>r c x y. (\<forall>fd. init_descriptor t = Some fd \<longrightarrow>
                   map_of (winsizes env) (Descriptor fd) = None) \<and>
        map_of (winsizes env) StdoutFile = Some (r, c, x, y)
        \<longrightarrow> height env t = Inr r \<and> width env t = Inr c"
  proof (intro allI impI, elim conjE)
    fix r c x y
    assume "\<forall>fd. init_descriptor t = Some fd \<longrightarrow> map_of (winsizes env) (Descriptor fd) = None"
      "map_of (winsizes env) StdoutFile = Some (r, c, x, y)"
    then show "height env t = Inr r \<and> width env t = Inr c"
      by (rule height_width_stdout)
  qed
  have 5: "query_candidates env [map_option Descriptor (init_descriptor t), Some StdoutFile] = None \<longrightarrow>
      (\<forall>r c. py_int (environ_get env ''LINES'' ''25'') = Inr r \<and>
             py_int (environ_get env ''COLUMNS'' ''80'') = Inr c \<longrightarrow>
             height env t = Inr r \<and> width env t = Inr c) \<and>
      (map_of (environ env) ''LINES'' = None \<and> map_of (environ env) ''COLUMNS'' = None \<longrightarrow>
             height env t = Inr 25 \<and> width env t = Inr 80) \<and>
      (\<forall>e. py_int (environ_get env ''LINES'' ''25'') = Inl e \<or>
           py_int (environ_get env ''COLUMNS'' ''80'') = Inl e \<longrightarrow>
             height env t = Inl ValueError \<and> width env t = Inl ValueError)"
  proof
    assume q: "query_candidates env
                 [map_option Descriptor (init_descriptor t), Some StdoutFile] = None"
    have a: "\<forall>r c. py_int (environ_get env ''LINES'' ''25'') = Inr r \<and>
             py_int (environ_get env ''COLUMNS'' ''80'') = Inr c \<longrightarrow>
             height env t = Inr r \<and> width env t = Inr c"
      using height_width_fallback [OF q] by blast
    have b: "map_of (environ env) ''LINES'' = None \<and> map_of (environ env) ''COLUMNS'' = None \<longrightarrow>
             height env t = Inr 25 \<and> width env t = Inr 80"
      using height_width_default [OF q] by blast
    have c: "\<forall>e. py_int (environ_get env ''LINES'' ''25'') = Inl e \<or>
           py_int (environ_get env ''COLUMNS'' ''80'') = Inl e \<longrightarrow>
             height env t = Inl ValueError \<and> width env t = Inl ValueError"
      using height_width_bad_variable [OF q] by blast
    show "(\<forall>r c. py_int (environ_get env ''LINES'' ''25'') = Inr r \<and>
             py_int (environ_get env ''COLUMNS'' ''80'') = Inr c \<longrightarrow>
             height env t = Inr r \<and> width env t = Inr c) \<and>
      (map_of (environ env) ''LINES'' = None \<and> map_of (environ env) ''COLUMNS'' = None \<longrightarrow>
             height env t = Inr 25 \<and> width env t = Inr 80) \<and>
      (\<forall>e. py_int (environ_get env ''LINES'' ''25'') = Inl e \<or>
           py_int (environ_get env ''COLUMNS'' ''80'') = Inl e \<longrightarrow>
             height env t = Inl ValueError \<and> width env t = Inl ValueError)"
      by (intro conjI a b c)
  qed
  show ?thesis by (intro conjI 1 2 3 4 5)
qed

theorem height_width_amended_witness:
  "height bare_env piped_terminal = Inr 25 \<and> width bare_env piped_terminal = Inr 80 \<and>
   height demo_env piped_terminal = Inr 24 \<and> width demo_env piped_terminal = Inr 132 \<and>
   height stdout_env piped_terminal = Inr 50 \<and> width stdout_env piped_terminal = Inr 100 \<and>
   height no_tty_env piped_terminal = Inl ValueError"
proof -
  have q: "query_candidates bare_env
             [map_option Descriptor (init_descriptor piped_terminal), Some StdoutFile] = None"
    by (simp add: piped_terminal_eq bare_env_def winsize_def)
  have e: "map_of (environ bare_env) ''LINES'' = None"
    "map_of (environ bare_env) ''COLUMNS'' = None"
    by (simp_all add: bare_env_def)
  have 1: "height bare_env piped_terminal = Inr 25 \<and> width bare_env piped_terminal = Inr 80"
    using height_width_amended [of bare_env piped_terminal] q e by simp
  have d: "init_descriptor piped_terminal = Some 1"
    "map_of (winsizes demo_env) (Descriptor 1) = Some (24, 132, 0, 0)"
    by (simp_all add: piped_terminal_eq demo_env_def)
  have 2: "height demo_env piped_terminal = Inr 24 \<and> width demo_env piped_terminal = Inr 132"
    using height_width_amended [of demo_env piped_terminal] d by blast
  have s: "\<forall>fd. init_descriptor piped_terminal = Some fd \<longrightarrow>
             map_of (winsizes stdout_env) (Descriptor fd) = None"
    "map_of (winsizes stdout_env) StdoutFile = Some (50, 100, 0, 0)"
    by (simp_all add: piped_terminal_eq stdout_env_def)
  have 3: "height stdout_env piped_terminal = Inr 50 \<and> width stdout_env piped_terminal = Inr 100"
    using height_width_amended [of stdout_env piped_terminal] s by blast
  have q2: "query_candidates no_tty_env
             [map_option Descriptor (init_descriptor piped_terminal), Some StdoutFile] = None"
    by (simp add: piped_terminal_eq no_tty_env_def winsize_def)
  have b: "py_int (environ_get no_tty_env ''LINES'' ''25'') = Inl ValueError"
    by (simp add: no_tty_env_def environ_get_def py_int_def py_strip_def is_space_def
        is_digit_def)
  have 4: "height no_tty_env piped_terminal = Inl ValueError"
    using height_width_amended [of no_tty_env piped_terminal] q2 b by blast
  from 1 2 3 4 show ?thesis by simp
qed

text \<open>
  The claim as stated (\<open>height\<close> and \<open>width\<close> are total) fails: with no terminal to
  query and \<open>LINES=abc\<close>, \<open>height\<close> raises \<open>ValueError\<close>.
\<close>

theorem height_not_total:
  "height no_tty_env piped_terminal = Inl ValueError"
  by (simp add: height_def height_and_width_def no_tty_env_def piped_terminal_eq
      environ_get_def winsize_def py_int_def py_strip_def is_space_def is_digit_def)

subsection \<open>wrap\<close>

lemma splitlines_two_lines: "splitlines two_lines = [''a'', ''b'']"
  by (simp add: two_lines_def splitlines_def is_linebreak_def)

lemma strip_letters: "py_strip ''a'' = ''a''" "py_strip ''b'' = ''b''"
  by (simp_all add: py_strip_def is_space_def)

lemma wrap_two_lines:
  "wrap text_wrapper env t two_lines (Some n) [] =
     (case text_wrapper (Some n) [] two_lines of
        Inl e \<Rightarrow> Inl e
      | Inr wrapped \<Rightarrow> Inr (wrapped @ wrapped))"
  unfolding wrap_def splitlines_two_lines
  by (simp add: break_long_words_set_def strip_letters split: sum.splits)

lemma one_line_wrapper_two_lines: "one_line_wrapper w kw two_lines = Inr [''a b'']"
  by (simp add: one_line_wrapper_def two_lines_def is_space_def)

text \<open>
  C3 does not hold of the code. The loop of \<open>wrap\<close> iterates over the lines of the
  text but hands the whole \<open>text\<close>, not the \<open>line\<close>, to the wrapper: for the two
  lines \<open>a\<close> and \<open>b\<close> the result is the wrapping of the whole text, twice. With a
  wrapper that keeps a short text on one line this is \<open>a b\<close>, \<open>a b\<close>.
\<close>

theorem wrap_rewraps_whole_text:
  "wrap text_wrapper env t two_lines (Some 10) [] =
     (case text_wrapper (Some 10) [] two_lines of
        Inl e \<Rightarrow> Inl e
      | Inr wrapped \<Rightarrow> Inr (wrapped @ wrapped)) \<and>
   wrap one_line_wrapper env t two_lines (Some 10) [] = Inr [''a b'', ''a b'']"
  by (simp add: wrap_two_lines one_line_wrapper_two_lines)

text \<open>
  Whatever the wrapper does with the whole text, the result is not the wrapping of the
  two lines one after the other, as soon as each of them wraps to itself.
\<close>

lemma wrap_not_linewise:
  assumes "text_wrapper (Some 10) [] ''a'' = Inr [''a'']"
    and "text_wrapper (Some 10) [] ''b'' = Inr [''b'']"
  shows "wrap text_wrapper env t two_lines (Some 10) [] \<noteq> Inr ([''a''] @ [''b''])"
proof
  assume "wrap text_wrapper env t two_lines (Some 10) [] = Inr ([''a''] @ [''b''])"
  then obtain wrapped where w: "wrapped @ wrapped = [''a'', ''b'']"
    unfolding wrap_two_lines by (auto split: sum.splits)
  then have "length (wrapped @ wrapped) = 2" by simp
  then have "length wrapped = 1" by simp
  then obtain x where x: "wrapped = [x]" by (cases wrapped) auto
  have "hd (wrapped @ wrapped) = ''a''" "last (wrapped @ wrapped) = ''b''"
    unfolding w by simp_all
  then have "x = ''a''" "x = ''b''" unfolding x by simp_all
  then have "''a'' = ''b''" by (rule trans [OF sym])
  then show False by simp
qed

lemma wrap_lines_error:
  "wrap_lines text_wrapper w kw s acc rest = Inl e \<Longrightarrow> text_wrapper w kw s = Inl e"
  by (induction text_wrapper w kw s acc rest rule: wrap_lines.induct)
     (auto split: if_splits sum.splits)

lemma wrap_error_source:
  assumes "wrap text_wrapper env t text width_arg kw = Inl e" "\<not> break_long_words_set kw"
  shows "e = ValueError \<or> (\<exists>w. text_wrapper w kw text = Inl e)"
proof (cases width_arg)
  case (Some n)
  with assms have "wrap_lines text_wrapper (Some n) kw text [] (splitlines text) = Inl e"
    by (simp add: wrap_def)
  then show ?thesis by (blast dest: wrap_lines_error)
next
  case None
  show ?thesis
  proof (cases "width env t")
    case (Inl e')
    with assms None have "e = e'" by (simp add: wrap_def)
    with Inl width_error [of env t e'] show ?thesis by simp
  next
    case (Inr m)
    with assms None
    have "wrap_lines text_wrapper (if m \<noteq> 0 then Some m else None) kw text []
            (splitlines text) = Inl e"
      by (simp add: wrap_def)
    then show ?thesis by (blast dest: wrap_lines_error)
  qed
qed

text \<open>
  C4. A call of \<open>wrap\<close> whose keyword arguments set \<open>break_long_words\<close> to a true
  value fails with \<open>AssertionError\<close>, whatever the text, the width and the wrapper
  (also where looking up the width would raise). With the option absent or false the
  call goes on: with a width given it is the loop over the lines of the text at that
  width; with no width given it reads \<open>self.width\<close> and is the loop at that width
  (no width at all when \<open>self.width\<close> is 0), or the exception of \<open>self.width\<close>; and in
  either case it raises \<open>AssertionError\<close> only if the wrapper does.
\<close>

theorem wrap_break_long_words:
  "(break_long_words_set kw \<longrightarrow>
      wrap text_wrapper env t text width_arg kw = Inl AssertionError) \<and>
   (\<not> break_long_words_set kw \<longrightarrow>
      wrap text_wrapper env t text (Some n) kw =
        wrap_lines text_wrapper (Some n) kw text [] (splitlines text) \<and>
      wrap text_wrapper env t text None kw =
        (case width env t of
           Inl e \<Rightarrow> Inl e
         | Inr m \<Rightarrow>
             wrap_lines text_wrapper (if m \<noteq> 0 then Some m else None) kw text []
               (splitlines text)) \<and>
      ((\<forall>w. text_wrapper w kw text \<noteq> Inl AssertionError) \<longrightarrow>
         wrap text_wrapper env t text width_arg kw \<noteq> Inl AssertionError))"
proof (intro conjI impI)
  assume "break_long_words_set kw"
  then show "wrap text_wrapper env t text width_arg kw = Inl AssertionError"
    by (simp add: wrap_def)
next
  assume "\<not> break_long_words_set kw"
  then show "wrap text_wrapper env t text (Some n) kw =
        wrap_lines text_wrapper (Some n) kw text [] (splitlines text)"
    by (simp add: wrap_def)
next
  assume "\<not> break_long_words_set kw"
  then show "wrap text_wrapper env t text None kw =
        (case width env t of
           Inl e \<Rightarrow> Inl e
         | Inr m \<Rightarrow>
             wrap_lines text_wrapper (if m \<noteq> 0 then Some m else None) kw text []
               (splitlines text))"
    by (simp add: wrap_def split: sum.splits)
next
  assume n: "\<not> break_long_words_set kw"
    and w: "\<forall>w. text_wrapper w kw text \<noteq> Inl AssertionError"
  show "wrap text_wrapper env t text width_arg kw \<noteq> Inl AssertionError"
  proof
    assume "wrap text_wrapper env t text width_arg kw = Inl AssertionError"
    from wrap_error_source [OF this n] w show False by simp
  qed
qed

theorem wrap_break_long_words_witness:
  "wrap one_line_wrapper no_tty_env piped_terminal ''a b'' None kw_break = Inl AssertionError \<and>
   wrap one_line_wrapper no_tty_env piped_terminal ''a b'' (Some 10) kw_no_break = Inr [''a b''] \<and>
   wrap one_line_wrapper no_tty_env piped_terminal ''a b'' (Some 10) [] = Inr [''a b''] \<and>
   wrap one_line_wrapper bare_env piped_terminal ''a b'' None kw_no_break = Inr [''a b''] \<and>
   wrap one_line_wrapper bare_env piped_terminal ''a b'' None [] = Inr [''a b''] \<and>
   wrap one_line_wrapper no_tty_env piped_terminal ''a b'' None [] \<noteq> Inl AssertionError"
proof -
  have k: "break_long_words_set kw_break" "\<not> break_long_words_set kw_no_break"
    "\<not> break_long_words_set []"
    by (simp_all add: break_long_words_set_def kw_break_def kw_no_break_def)
  have s: "splitlines ''a b'' = [''a b'']" "py_strip ''a b'' = ''a b''"
    by (simp_all add: splitlines_def is_linebreak_def py_strip_def is_space_def)
  have l: "wrap_lines one_line_wrapper w kw ''a b'' [] (splitlines ''a b'') = Inr [''a b'']"
    for kw w
    unfolding s by (simp add: s one_line_wrapper_def is_space_def)
  have q: "query_candidates bare_env
             [map_option Descriptor (init_descriptor piped_terminal), Some StdoutFile] = None"
    by (simp add: piped_terminal_eq bare_env_def winsize_def)
  have e: "map_of (environ bare_env) ''LINES'' = None"
    "map_of (environ bare_env) ''COLUMNS'' = None"
    by (simp_all add: bare_env_def)
  have w: "width bare_env piped_terminal = Inr 80"
    using height_width_default [OF q e] by simp
  have o: "\<forall>w. one_line_wrapper w [] ''a b'' \<noteq> Inl AssertionError"
    by (simp add: one_line_wrapper_def)
  have 1: "wrap one_line_wrapper no_tty_env piped_terminal ''a b'' None kw_break
             = Inl AssertionError"
    using wrap_break_long_words
      [of kw_break one_line_wrapper no_tty_env piped_terminal "''a b''" None] k
    by simp
  have 2: "wrap one_line_wrapper no_tty_env piped_terminal ''a b'' (Some 10) kw_no_break
             = Inr [''a b'']"
    using wrap_break_long_words
      [of kw_no_break one_line_wrapper no_tty_env piped_terminal "''a b''" None 10] k l
    by simp
  have 3: "wrap one_line_wrapper no_tty_env piped_terminal ''a b'' (Some 10) [] = Inr [''a b'']"
    using wrap_break_long_words
      [of "[]" one_line_wrapper no_tty_env piped_terminal "''a b''" None 10] k l
    by simp
  have 4: "wrap one_line_wrapper bare_env piped_terminal ''a b'' None kw_no_break
             = Inr [''a b'']"
    using wrap_break_long_words
      [of kw_no_break one_line_wrapper bare_env piped_terminal "''a b''" None 10] k l w
    by simp
  have 5: "wrap one_line_wrapper bare_env piped_terminal ''a b'' None [] = Inr [''a b'']"
    using wrap_break_long_words
      [of "[]" one_line_wrapper bare_env piped_terminal "''a b''" None 10] k l w
    by simp
  have 6: "wrap one_line_wrapper no_tty_env piped_terminal ''a b'' None [] \<noteq> Inl AssertionError"
    using wrap_break_long_words
      [of "[]" one_line_wrapper no_tty_env piped_terminal "''a b''" None 10] k(3) o
    by blast
  from 1 2 3 4 5 6 show ?thesis by simp
qed

subsection \<open>Attribute resolution without styling\<close>


lemma getattr_dunder_unstyled:
  "\<not> does_styling t \<Longrightarrow> getattr_dunder R t attr = (NullCallableString, t)"
  by (simp add: getattr_dunder_def)

lemma instance_getattr_unstyled:
  assumes "\<not> does_styling (fst (terminal_init env p kind_arg stream_arg force_styling))"
  shows "instance_getattr R (fst (terminal_init env p kind_arg stream_arg force_styling)) attr
           = (NullCallableString, fst (terminal_init env p kind_arg stream_arg force_styling))"
  using assms terminal_init_no_styling_attrs [OF assms]
  by (simp add: instance_getattr_def getattr_dunder_unstyled)



subsection \<open>kbhit without a keyboard\<close>

text \<open>
  C2 does not hold of the code. A Terminal constructed with a stream of its own has
  \<open>stream_kb = None\<close>, but the guard of \<open>kbhit\<close> tests the attribute \<open>keyboard_fd\<close>,
  which nothing assigns: the lookup ends in \<open>__getattr__\<close>, whose result is never
  \<open>None\<close>, and \<open>select\<close> is called with \<open>None\<close> in the list to watch. The call
  raises \<open>TypeError\<close> for every timeout: for every Terminal constructed with a stream
  and \<open>force_styling=None\<close>, and for \<open>Terminal(stream=StringIO())\<close>.
\<close>

theorem kbhit_without_keyboard_raises:
  "kbhit R (fst (terminal_init env p kind_arg (Some s) None)) w timeout = Some (Raises TypeError) \<and>
   kbhit demo_resolver piped_terminal one_byte_world (Some 0) = Some (Raises TypeError)"
proof -
  let ?t = "fst (terminal_init env p kind_arg (Some s) None)"
  have u: "\<not> does_styling ?t" "stream_kb ?t = None"
    by (simp_all add: terminal_init_unstyled)
  have g: "instance_getattr R ?t ''keyboard_fd'' = (NullCallableString, ?t)"
    using u(1) by (rule instance_getattr_unstyled)
  have 1: "kbhit R ?t w timeout = Some (Raises TypeError)"
    unfolding kbhit_def g by (simp add: select_read_def u)
  have 2: "kbhit demo_resolver piped_terminal one_byte_world (Some 0) = Some (Raises TypeError)"
    by (simp add: kbhit_def instance_getattr_def getattr_dunder_def select_read_def
        piped_terminal_eq)
  from 1 2 show ?thesis by simp
qed

subsection \<open>location\<close>

text \<open>
  C10. \<open>location\<close> writes the save sequence, then the movement for the coordinates
  that are not \<open>None\<close> (\<open>move(y, x)\<close> for both, \<open>move_x(x)\<close> or \<open>move_y(y)\<close> for
  one, nothing for none), whatever their values, 0 included; then the body runs; then
  the restore sequence is written after whatever the body wrote, whether the body
  returned or raised, and an exception of the body leaves the context manager.
\<close>

theorem location_moves_and_restores:
  "location caps (Some a) (Some b) body out =
     (fst (body (out @ save caps @ move caps b a)),
      snd (body (out @ save caps @ move caps b a)) @ restore caps) \<and>
   location caps (Some a) None body out =
     (fst (body (out @ save caps @ move_x caps a)),
      snd (body (out @ save caps @ move_x caps a)) @ restore caps) \<and>
   location caps None (Some b) body out =
     (fst (body (out @ save caps @ move_y caps b)),
      snd (body (out @ save caps @ move_y caps b)) @ restore caps) \<and>
   location caps None None body out =
     (fst (body (out @ save caps)), snd (body (out @ save caps)) @ restore caps) \<and>
   (\<exists>written. snd (location caps x y body out) = written @ restore caps)"
  by (simp add: location_def Let_def split: prod.splits)

theorem location_zero_example:
  "location ansi_caps (Some 0) (Some 0) body_raising [] =
     (Some (BodyError ''boom''),
      [CHR 0x1B] @ ''[s'' @ [CHR 0x1B] @ ''[1;1H'' @ ''hi'' @ [CHR 0x1B] @ ''[u'') \<and>
   location ansi_caps (Some 0) None body_hi [] =
     (None, [CHR 0x1B] @ ''[s'' @ [CHR 0x1B] @ ''[1G'' @ ''hi'' @ [CHR 0x1B] @ ''[u'')"
  using location_moves_and_restores [of ansi_caps 0 0 body_raising "[]"]
    location_moves_and_restores [of ansi_caps 0 0 body_hi "[]"]
  by (simp add: ansi_caps_def body_raising_def body_hi_def digit_text_def)

subsection \<open>The keyboard loops\<close>

lemma rebuffer_eq: "rebuffer ucs buf = (ucs @ rev buf, [])"
proof (induction buf arbitrary: ucs rule: rev_induct)
  case Nil
  show ?case by (simp add: rebuffer.simps)
next
  case (snoc x xs)
  have "rebuffer ucs (xs @ [x]) = rebuffer (ucs @ [x]) xs"
    by (subst rebuffer.simps) simp
  then show ?case using snoc by simp
qed

lemma extendleft_eq: "extendleft items buf = rev items @ buf"
  unfolding extendleft_def by (induction items arbitrary: buf) auto

lemma getattr_dunder_fields:
  "getattr_dunder R t attr = (v, t1) \<Longrightarrow>
     stream_kb t1 = stream_kb t \<and> keyboard_buf t1 = keyboard_buf t \<and> v \<noteq> PyNone \<and>
     (\<forall>c. v \<noteq> PyInt c) \<and>
     (\<forall>name. name \<noteq> attr \<longrightarrow> map_of (attrs t1) name = map_of (attrs t) name) \<and>
     (map_of (attrs t) ''keyboard_fd'' \<noteq> Some PyNone \<longrightarrow> map_of (attrs t1) ''keyboard_fd'' \<noteq> Some PyNone)"
  by (auto simp: getattr_dunder_def Let_def split: if_splits)

lemma instance_getattr_fields:
  "instance_getattr R t attr = (v, t1) \<Longrightarrow>
     stream_kb t1 = stream_kb t \<and> keyboard_buf t1 = keyboard_buf t \<and>
     (\<forall>name. name \<noteq> attr \<longrightarrow> map_of (attrs t1) name = map_of (attrs t) name) \<and>
     (map_of (attrs t) ''keyboard_fd'' \<noteq> Some PyNone \<longrightarrow> map_of (attrs t1) ''keyboard_fd'' \<noteq> Some PyNone)"
  by (auto simp: instance_getattr_def dest: getattr_dunder_fields split: option.splits)

lemma instance_getattr_interactive:
  "instance_getattr R t attr = (v, t1) \<Longrightarrow> interactive t \<Longrightarrow> interactive t1"
  by (auto simp: interactive_def dest: instance_getattr_fields)

lemma keyboard_fd_not_None:
  "instance_getattr R t ''keyboard_fd'' = (v, t1) \<Longrightarrow> interactive t \<Longrightarrow> v \<noteq> PyNone"
  by (auto simp: instance_getattr_def interactive_def dest: getattr_dunder_fields split: option.splits)

lemma kbhit_effect:
  assumes "kbhit R t w timeout = Some (Returns (hit, t1, w1))"
  shows "pending w1 = pending w \<and> eof w1 = eof w \<and> keyboard_buf t1 = keyboard_buf t \<and>
         stream_kb t1 = stream_kb t \<and> clock w \<le> clock w1 \<and> (interactive t \<longrightarrow> interactive t1) \<and>
         map_of (attrs t1) ''KEY_ESCAPE'' = map_of (attrs t) ''KEY_ESCAPE''"
proof -
  obtain v where g: "instance_getattr R t ''keyboard_fd'' = (v, t1)"
    using assms by (auto simp: kbhit_def split: prod.splits if_splits option.splits outcome.splits)
  note f = instance_getattr_fields [OF g] instance_getattr_interactive [OF g]
  have w: "pending w1 = pending w \<and> eof w1 = eof w \<and> clock w \<le> clock w1"
    using assms unfolding kbhit_def g
    by (auto simp: select_read_def split: if_splits option.splits outcome.splits)
  from f have "map_of (attrs t1) ''KEY_ESCAPE'' = map_of (attrs t) ''KEY_ESCAPE''" by simp
  with w f show ?thesis by simp
qed




lemma kbhit_miss_clock:
  assumes "kbhit R t w (Some d) = Some (Returns (False, t1, w1))" "interactive t"
  shows "clock w1 = clock w + d \<and> (\<forall>a. next_ready w = Some a \<longrightarrow> clock w + d < a)"
proof -
  obtain v where g: "instance_getattr R t ''keyboard_fd'' = (v, t1)"
    using assms by (auto simp: kbhit_def split: prod.splits if_splits option.splits outcome.splits)
  note f = instance_getattr_fields [OF g] keyboard_fd_not_None [OF g assms(2)]
  have "stream_kb t1 \<noteq> None" using f assms(2) by (simp add: interactive_def)
  then show ?thesis using assms(1) f unfolding kbhit_def g
    by (auto simp: select_read_def split: if_splits option.splits)
qed



lemma decode_next_effect:
  assumes "decode_next w = Some (Returns (s, w2))"
  shows "eof w2 = eof w \<and> clock w \<le> clock w2 \<and>
         ((\<exists>a. pending w = (a, Some s) # pending w2 \<and> clock w2 = max (clock w) a) \<or>
          (pending w = [] \<and> pending w2 = [] \<and> s = [] \<and>
           (\<exists>e. eof w = Some e \<and> clock w2 = max (clock w) e)))"
  using assms by (auto simp: decode_next_def split: list.splits option.splits)

lemma decoded_Nil: "pending w = [] \<Longrightarrow> decoded n w = []"
  by (simp add: decoded_def)

lemma decoded_0: "decoded 0 w = []"
  by (simp add: decoded_def)

lemma decoded_Suc: "pending w = (a, Some s) # pending w2 \<Longrightarrow> decoded (Suc n) w = s @ decoded n w2"
  by (simp add: decoded_def byte_text_def)

lemma read_step:
  assumes k: "kbhit R t w timeout = Some (Returns (hit, t1, w1))"
    and d: "decode_next w1 = Some (Returns (s, w2))"
    and r: "ucs' = (ucs @ s) @ decoded n w2" "pending w' = drop n (pending w2)"
  shows "\<exists>m. ucs' = ucs @ decoded m w \<and> pending w' = drop m (pending w)"
proof -
  from kbhit_effect [OF k] have p: "pending w1 = pending w" by simp
  from decode_next_effect [OF d] p
  consider a where "pending w = (a, Some s) # pending w2"
    | "pending w = []" "pending w2 = []" "s = []"
    by auto
  then show ?thesis
  proof cases
    case 1
    with r have "ucs' = ucs @ decoded (Suc n) w \<and> pending w' = drop (Suc n) (pending w)"
      by (simp add: decoded_Suc [OF 1])
    then show ?thesis ..
  next
    case 2
    with r have "ucs' = ucs @ decoded 0 w \<and> pending w' = drop 0 (pending w)"
      by (simp add: decoded_Nil decoded_0)
    then show ?thesis ..
  qed
qed

lemma recv_available_reads:
  assumes "recv_available R t w ucs = Some y"
  shows "\<forall>ucs' t' w'. y = Returns (ucs', t', w') \<longrightarrow>
     (\<exists>n. ucs' = ucs @ decoded n w \<and> pending w' = drop n (pending w) \<and> eof w' = eof w \<and>
         keyboard_buf t' = keyboard_buf t \<and> clock w \<le> clock w' \<and> (interactive t \<longrightarrow> interactive t'))"
proof (rule recv_available.raw_induct [where P = "\<lambda>R t w ucs y.
     \<forall>ucs' t' w'. y = Returns (ucs', t', w') \<longrightarrow>
     (\<exists>n. ucs' = ucs @ decoded n w \<and> pending w' = drop n (pending w) \<and> eof w' = eof w \<and>
         keyboard_buf t' = keyboard_buf t \<and> clock w \<le> clock w' \<and> (interactive t \<longrightarrow> interactive t'))",
     OF _ assms], goal_cases)
  case (1 recv R t w ucs y)
  note IH = 1(1) and body = 1(2)
  show ?case
  proof (intro allI impI)
    fix ucs' t' w'
    assume y: "y = Returns (ucs', t', w')"
    from body [unfolded y]
    consider (stop) t1 w1 where "kbhit R t w (Some 0) = Some (Returns (False, t1, w1))"
        "(ucs', t', w') = (ucs, t1, w1)"
      | (again) t1 w1 s w2 where "kbhit R t w (Some 0) = Some (Returns (True, t1, w1))"
        "decode_next w1 = Some (Returns (s, w2))"
        "recv R t1 w2 (ucs @ s) = Some (Returns (ucs', t', w'))"
      by (auto split: option.splits outcome.splits if_splits)
    then show "\<exists>n. ucs' = ucs @ decoded n w \<and> pending w' = drop n (pending w) \<and> eof w' = eof w \<and>
         keyboard_buf t' = keyboard_buf t \<and> clock w \<le> clock w' \<and> (interactive t \<longrightarrow> interactive t')"
    proof cases
      case stop
      with kbhit_effect [OF stop(1)] show ?thesis
        by (intro exI [of _ 0]) (simp add: decoded_0)
    next
      case again
      note ke = kbhit_effect [OF again(1)]
      note de = decode_next_effect [OF again(2)]
      from IH [OF again(3)] obtain n
        where n: "ucs' = (ucs @ s) @ decoded n w2" "pending w' = drop n (pending w2)"
          "eof w' = eof w2" "keyboard_buf t' = keyboard_buf t1" "clock w2 \<le> clock w'"
          "interactive t1 \<longrightarrow> interactive t'"
        by blast
      from read_step [OF again(1,2) n(1,2)] obtain m
        where "ucs' = ucs @ decoded m w" "pending w' = drop m (pending w)" by blast
      moreover have "eof w' = eof w" using n ke de by simp
      moreover have "keyboard_buf t' = keyboard_buf t" using n ke by simp
      moreover have "clock w \<le> clock w'" using n ke de by simp
      moreover have "interactive t \<longrightarrow> interactive t'" using n ke by simp
      ultimately show ?thesis by blast
    qed
  qed
qed

lemma recv_until_resolved_reads:
  assumes "recv_until_resolved R resolve t w stime timeout ucs ks = Some y"
  shows "\<forall>ks' ucs' t' w'. y = Returns (ks', ucs', t', w') \<longrightarrow>
     (\<exists>n. ucs' = ucs @ decoded n w \<and> pending w' = drop n (pending w) \<and> eof w' = eof w \<and>
         keyboard_buf t' = keyboard_buf t \<and> clock w \<le> clock w' \<and>
         (interactive t \<longrightarrow> interactive t') \<and> (ks = resolve ucs \<longrightarrow> ks' = resolve ucs'))"
proof (rule recv_until_resolved.raw_induct [where P = "\<lambda>R resolve t w stime timeout ucs ks y.
     \<forall>ks' ucs' t' w'. y = Returns (ks', ucs', t', w') \<longrightarrow>
     (\<exists>n. ucs' = ucs @ decoded n w \<and> pending w' = drop n (pending w) \<and> eof w' = eof w \<and>
         keyboard_buf t' = keyboard_buf t \<and> clock w \<le> clock w' \<and>
         (interactive t \<longrightarrow> interactive t') \<and> (ks = resolve ucs \<longrightarrow> ks' = resolve ucs'))",
     OF _ assms], goal_cases)
  case (1 recv R resolve t w stime timeout ucs ks y)
  note IH = 1(1) and body = 1(2)
  show ?case
  proof (intro allI impI)
    fix ks' ucs' t' w'
    assume y: "y = Returns (ks', ucs', t', w')"
    from body [unfolded y]
    consider (resolved) "(ks', ucs', t', w') = (ks, ucs, t, w)"
      | (stop) t1 w1 where
        "kbhit R t w (timeleft w stime timeout) = Some (Returns (False, t1, w1))"
        "(ks', ucs', t', w') = (ks, ucs, t1, w1)"
      | (again) t1 w1 s w2 where
        "kbhit R t w (timeleft w stime timeout) = Some (Returns (True, t1, w1))"
        "decode_next w1 = Some (Returns (s, w2))"
        "recv R resolve t1 w2 stime timeout (ucs @ s) (resolve (ucs @ s))
           = Some (Returns (ks', ucs', t', w'))"
      by (auto split: option.splits outcome.splits if_splits)
    then show "\<exists>n. ucs' = ucs @ decoded n w \<and> pending w' = drop n (pending w) \<and> eof w' = eof w \<and>
         keyboard_buf t' = keyboard_buf t \<and> clock w \<le> clock w' \<and>
         (interactive t \<longrightarrow> interactive t') \<and> (ks = resolve ucs \<longrightarrow> ks' = resolve ucs')"
    proof cases
      case resolved
      then show ?thesis by (intro exI [of _ 0]) (simp add: decoded_0)
    next
      case stop
      with kbhit_effect [OF stop(1)] show ?thesis
        by (intro exI [of _ 0]) (simp add: decoded_0)
    next
      case again
      note ke = kbhit_effect [OF again(1)]
      note de = decode_next_effect [OF again(2)]
      from IH [OF again(3)] obtain n
        where n: "ucs' = (ucs @ s) @ decoded n w2" "pending w' = drop n (pending w2)"
          "eof w' = eof w2" "keyboard_buf t' = keyboard_buf t1" "clock w2 \<le> clock w'"
          "interactive t1 \<longrightarrow> interactive t'" "ks' = resolve ucs'"
        by blast
      from read_step [OF again(1,2) n(1,2)] obtain m
        where "ucs' = ucs @ decoded m w" "pending w' = drop m (pending w)" by blast
      moreover have "eof w' = eof w" using n ke de by simp
      moreover have "keyboard_buf t' = keyboard_buf t" using n ke by simp
      moreover have "clock w \<le> clock w'" using n ke de by simp
      moreover have "interactive t \<longrightarrow> interactive t'" using n ke by simp
      ultimately show ?thesis using n(7) by blast
    qed
  qed
qed

lemma code_is_cases: "code_is c v \<Longrightarrow> v = PyNone \<or> (\<exists>k. v = PyInt k)"
  by (cases c; cases v) simp_all

lemma is_key_escape_effect:
  assumes "is_key_escape R t ks = (esc, t0)"
  shows "keyboard_buf t0 = keyboard_buf t \<and> stream_kb t0 = stream_kb t \<and>
         (interactive t \<longrightarrow> interactive t0) \<and> (esc \<longrightarrow> t0 = t)"
proof -
  obtain v where g: "instance_getattr R t ''KEY_ESCAPE'' = (v, t0)"
    and e: "esc = code_is (ks_code ks) v"
    using assms by (auto simp: is_key_escape_def split: prod.splits)
  have "t0 = t" if esc
  proof -
    from that e have "v = PyNone \<or> (\<exists>c. v = PyInt c)"
      by (simp add: code_is_cases)
    with g show ?thesis
      by (auto simp: instance_getattr_def dest: getattr_dunder_fields split: option.splits)
  qed
  with instance_getattr_fields [OF g] instance_getattr_interactive [OF g] show ?thesis by auto
qed


lemma escape_wait_reads:
  assumes "escape_wait R resolve t w esctime esc_delay ucs ks = Some y"
  shows "\<forall>ks' ucs' t' w'. y = Returns (ks', ucs', t', w') \<longrightarrow>
     (\<exists>n. ucs' = ucs @ decoded n w \<and> pending w' = drop n (pending w) \<and> eof w' = eof w \<and>
         keyboard_buf t' = keyboard_buf t \<and> clock w \<le> clock w' \<and>
         (interactive t \<longrightarrow> interactive t') \<and> (ks = resolve ucs \<longrightarrow> ks' = resolve ucs'))"
proof (rule escape_wait.raw_induct [where P = "\<lambda>R resolve t w esctime esc_delay ucs ks y.
     \<forall>ks' ucs' t' w'. y = Returns (ks', ucs', t', w') \<longrightarrow>
     (\<exists>n. ucs' = ucs @ decoded n w \<and> pending w' = drop n (pending w) \<and> eof w' = eof w \<and>
         keyboard_buf t' = keyboard_buf t \<and> clock w \<le> clock w' \<and>
         (interactive t \<longrightarrow> interactive t') \<and> (ks = resolve ucs \<longrightarrow> ks' = resolve ucs'))",
     OF _ assms], goal_cases)
  case (1 wait R resolve t w esctime esc_delay ucs ks y)
  note IH = 1(1) and body = 1(2)
  obtain esc t0 where e: "is_key_escape R t ks = (esc, t0)" by force
  note ee = is_key_escape_effect [OF e]
  show ?case
  proof (intro allI impI)
    fix ks' ucs' t' w'
    assume y: "y = Returns (ks', ucs', t', w')"
    from body [unfolded y e]
    consider (other) "(ks', ucs', t', w') = (ks, ucs, t0, w)"
      | (stop) t1 w1 where
        "kbhit R t0 w (timeleft w esctime esc_delay) = Some (Returns (False, t1, w1))"
        "(ks', ucs', t', w') = (ks, ucs, t1, w1)"
      | (again) t1 w1 s w2 where
        "kbhit R t0 w (timeleft w esctime esc_delay) = Some (Returns (True, t1, w1))"
        "decode_next w1 = Some (Returns (s, w2))"
        "wait R resolve t1 w2 esctime esc_delay (ucs @ s) (resolve (ucs @ s))
           = Some (Returns (ks', ucs', t', w'))"
      by (auto split: option.splits outcome.splits if_splits)
    then show "\<exists>n. ucs' = ucs @ decoded n w \<and> pending w' = drop n (pending w) \<and> eof w' = eof w \<and>
         keyboard_buf t' = keyboard_buf t \<and> clock w \<le> clock w' \<and>
         (interactive t \<longrightarrow> interactive t') \<and> (ks = resolve ucs \<longrightarrow> ks' = resolve ucs')"
    proof cases
      case other
      with ee show ?thesis by (intro exI [of _ 0]) (simp add: decoded_0)
    next
      case stop
      with kbhit_effect [OF stop(1)] ee show ?thesis
        by (intro exI [of _ 0]) (simp add: decoded_0)
    next
      case again
      note ke = kbhit_effect [OF again(1)]
      note de = decode_next_effect [OF again(2)]
      from IH [OF again(3)] obtain n
        where n: "ucs' = (ucs @ s) @ decoded n w2" "pending w' = drop n (pending w2)"
          "eof w' = eof w2" "keyboard_buf t' = keyboard_buf t1" "clock w2 \<le> clock w'"
          "interactive t1 \<longrightarrow> interactive t'" "ks' = resolve ucs'"
        by blast
      from read_step [OF again(1,2) n(1,2)] obtain m
        where "ucs' = ucs @ decoded m w" "pending w' = drop m (pending w)" by blast
      moreover have "eof w' = eof w" using n ke de by simp
      moreover have "keyboard_buf t' = keyboard_buf t" using n ke ee by simp
      moreover have "clock w \<le> clock w'" using n ke de by simp
      moreover have "interactive t \<longrightarrow> interactive t'" using n ke ee by simp
      ultimately show ?thesis using n(7) by blast
    qed
  qed
qed

lemma decoded_add:
  assumes "pending w1 = drop n (pending w)"
  shows "decoded n w @ decoded m w1 = decoded (n + m) w"
    and "drop m (pending w1) = drop (n + m) (pending w)"
proof -
  have "take (n + m) (pending w) = take n (pending w) @ take m (drop n (pending w))"
    by (simp add: take_add)
  then show "decoded n w @ decoded m w1 = decoded (n + m) w"
    using assms by (simp add: decoded_def)
  show "drop m (pending w1) = drop (n + m) (pending w)"
    using assms by (simp add: add.commute)
qed

lemma interactive_keyboard_buf [simp]:
  "interactive (t\<lparr>keyboard_buf := b\<rparr>) = interactive t"
  by (simp add: interactive_def)

lemma inkey_resolve_reads:
  assumes "inkey_resolve R resolve t w timeout = Some (Returns (ks, ucs, t2, w2))"
  shows "\<exists>n. ucs = rev (keyboard_buf t) @ decoded n w \<and> pending w2 = drop n (pending w) \<and>
             eof w2 = eof w \<and> keyboard_buf t2 = [] \<and> ks = resolve ucs \<and> clock w \<le> clock w2 \<and>
             (interactive t \<longrightarrow> interactive t2)"
proof -
  from assms obtain ucs1 t1 w1
    where a: "recv_available R (t\<lparr>keyboard_buf := []\<rparr>) w (rev (keyboard_buf t))
                = Some (Returns (ucs1, t1, w1))"
      and b: "recv_until_resolved R resolve t1 w1 (clock w) timeout ucs1 (resolve ucs1)
                = Some (Returns (ks, ucs, t2, w2))"
    by (auto simp: inkey_resolve_def rebuffer_eq Let_def split: option.splits outcome.splits)
  from recv_available_reads [OF a] obtain n
    where n: "ucs1 = rev (keyboard_buf t) @ decoded n w" "pending w1 = drop n (pending w)"
      "eof w1 = eof w" "keyboard_buf t1 = []" "clock w \<le> clock w1"
      "interactive t \<longrightarrow> interactive t1"
    by auto
  from recv_until_resolved_reads [OF b] obtain m
    where m: "ucs = ucs1 @ decoded m w1" "pending w2 = drop m (pending w1)"
      "eof w2 = eof w1" "keyboard_buf t2 = keyboard_buf t1" "clock w1 \<le> clock w2"
      "interactive t1 \<longrightarrow> interactive t2" "ks = resolve ucs"
    by auto
  from n m decoded_add [OF n(2), of m] show ?thesis
    by (intro exI [of _ "n + m"]) auto
qed

lemma inkey_collect_reads:
  assumes "inkey_collect R resolve t w timeout esc_delay = Some (Returns (ks, ucs, t1, w1))"
  shows "\<exists>n. ucs = rev (keyboard_buf t) @ decoded n w \<and> pending w1 = drop n (pending w) \<and>
             keyboard_buf t1 = [] \<and> ks = resolve ucs \<and> clock w \<le> clock w1 \<and>
             (interactive t \<longrightarrow> interactive t1)"
proof -
  from assms obtain ks2 ucs2 t2 w2
    where a: "inkey_resolve R resolve t w timeout = Some (Returns (ks2, ucs2, t2, w2))"
    by (auto simp: inkey_collect_def split: option.splits outcome.splits)
  obtain esc t3 where e: "is_key_escape R t2 ks2 = (esc, t3)" by force
  note ee = is_key_escape_effect [OF e]
  from inkey_resolve_reads [OF a] obtain n
    where n: "ucs2 = rev (keyboard_buf t) @ decoded n w" "pending w2 = drop n (pending w)"
      "keyboard_buf t2 = []" "ks2 = resolve ucs2" "clock w \<le> clock w2"
      "interactive t \<longrightarrow> interactive t2"
    by auto
  show ?thesis
  proof (cases esc)
    case False
    with assms a e have "ks = ks2" "ucs = ucs2" "t1 = t3" "w1 = w2"
      by (simp_all add: inkey_collect_def)
    with n ee show ?thesis by (intro exI [of _ n]) auto
  next
    case True
    with assms a e
    have w: "escape_wait R resolve t3 w2 (clock w2) esc_delay ucs2 ks2
               = Some (Returns (ks, ucs, t1, w1))"
      by (simp add: inkey_collect_def)
    from escape_wait_reads [OF w] n(4) obtain m
      where m: "ucs = ucs2 @ decoded m w2" "pending w1 = drop m (pending w2)"
        "keyboard_buf t1 = keyboard_buf t3" "clock w2 \<le> clock w1"
        "interactive t3 \<longrightarrow> interactive t1" "ks = resolve ucs"
      by auto
    from n m ee decoded_add [OF n(2), of m] show ?thesis
      by (intro exI [of _ "n + m"]) auto
  qed
qed

lemmas keyboard_eval =
  inkey_def inkey_collect_def inkey_resolve_def rebuffer.simps recv_available.simps
  recv_until_resolved.simps escape_wait.simps kbhit_def select_read_def next_ready_def
  decode_next_def timeleft_def is_key_escape_def instance_getattr_def getattr_dunder_def
  terminal_dir_def class_names_def same_object_def extendleft_def Let_def
  demo_resolve_def resolve_sequence_def key_name_def demo_keymap_def demo_env_def
  demo_resolver_def demo_terminal_eq polled_terminal_def bc_terminal_def

lemma abc_collect:
  "inkey_collect demo_resolver demo_resolve demo_terminal abc_world None (Some (35 / 100)) =
     Some (Returns (key_a, ''abc'', polled_terminal, quiet_world))"
  by (simp add: keyboard_eval abc_world_def quiet_world_def key_a_def)

lemma esc_resolve:
  "inkey_resolve demo_resolver demo_resolve demo_terminal esc_world None =
     Some (Returns (key_escape, [CHR 0x1B], polled_terminal, quiet_world))"
  by (simp add: keyboard_eval esc_world_def quiet_world_def key_escape_def)


lemma bc_collect:
  "inkey_collect demo_resolver demo_resolve bc_terminal quiet_world (Some 0) (Some (35 / 100)) =
     Some (Returns (key_b, ''bc'', polled_terminal, quiet_world))"
  by (simp add: keyboard_eval quiet_world_def key_b_def)

lemma abc_inkey:
  "inkey demo_resolver demo_resolve demo_terminal abc_world None (Some (35 / 100)) =
     Some (Returns (key_a, bc_terminal, quiet_world))"
  by (simp add: keyboard_eval abc_world_def quiet_world_def key_a_def)

subsection \<open>Carry-over between calls of inkey\<close>

text \<open>
  C1. Let a call of \<open>inkey\<close> return the keystroke \<open>ks\<close> after considering the text
  \<open>ucs\<close>. Then \<open>ucs\<close> is the buffer left by the call before, in order, followed by
  the text decoded from the bytes this call has read; the call leaves in the buffer
  exactly the text beyond the first \<open>len(ks)\<close> characters of \<open>ucs\<close>, in order; and
  the text that the next call on the Terminal considers is that remainder followed by
  the text decoded from the bytes the next call reads. Nothing decoded is lost and
  nothing is considered twice.
\<close>

theorem inkey_carry_over:
  assumes "inkey_collect R resolve t w timeout esc_delay = Some (Returns (ks, ucs, t1, w1))"
  shows "\<exists>t'. inkey R resolve t w timeout esc_delay = Some (Returns (ks, t', w1)) \<and>
           rev (keyboard_buf t') = drop (length (ks_text ks)) ucs \<and>
           (\<exists>n. ucs = rev (keyboard_buf t) @ decoded n w \<and> pending w1 = drop n (pending w)) \<and>
           (\<forall>timeout' esc_delay' ks' ucs' t2 w2.
              inkey_collect R resolve t' w1 timeout' esc_delay' = Some (Returns (ks', ucs', t2, w2)) \<longrightarrow>
              (\<exists>m. ucs' = drop (length (ks_text ks)) ucs @ decoded m w1 \<and>
                   pending w2 = drop m (pending w1)))"
proof -
  define t' where
    "t' = t1\<lparr>keyboard_buf := extendleft (drop (length (ks_text ks)) ucs) (keyboard_buf t1)\<rparr>"
  from inkey_collect_reads [OF assms] obtain n
    where n: "ucs = rev (keyboard_buf t) @ decoded n w" "pending w1 = drop n (pending w)"
      "keyboard_buf t1 = []"
    by auto
  have call: "inkey R resolve t w timeout esc_delay = Some (Returns (ks, t', w1))"
    using assms by (simp add: inkey_def t'_def)
  have buf: "rev (keyboard_buf t') = drop (length (ks_text ks)) ucs"
    by (simp add: t'_def extendleft_eq n(3))
  have "\<exists>m. ucs' = drop (length (ks_text ks)) ucs @ decoded m w1 \<and>
            pending w2 = drop m (pending w1)"
    if "inkey_collect R resolve t' w1 timeout' esc_delay' = Some (Returns (ks', ucs', t2, w2))"
    for timeout' esc_delay' ks' ucs' t2 w2
    using inkey_collect_reads [OF that] buf by auto
  with call buf n(1,2) show ?thesis by blast
qed

theorem inkey_carry_over_witness:
  "inkey demo_resolver demo_resolve demo_terminal abc_world None (Some (35 / 100)) =
     Some (Returns (key_a, bc_terminal, quiet_world)) \<and>
   rev (keyboard_buf bc_terminal) = ''bc'' \<and>
   inkey_collect demo_resolver demo_resolve bc_terminal quiet_world (Some 0) (Some (35 / 100)) =
     Some (Returns (key_b, ''bc'', polled_terminal, quiet_world)) \<and>
   (\<exists>m. ''bc'' = ''bc'' @ decoded m quiet_world \<and>
        pending quiet_world = drop m (pending quiet_world))"
proof -
  from inkey_carry_over [OF abc_collect] obtain t'
    where t': "inkey demo_resolver demo_resolve demo_terminal abc_world None (Some (35 / 100))
                 = Some (Returns (key_a, t', quiet_world))"
      and next_call: "\<And>timeout' esc_delay' ks' ucs' t2 w2.
              inkey_collect demo_resolver demo_resolve t' quiet_world timeout' esc_delay'
                = Some (Returns (ks', ucs', t2, w2)) \<Longrightarrow>
              \<exists>m. ucs' = drop (length (ks_text key_a)) ''abc'' @ decoded m quiet_world \<and>
                   pending w2 = drop m (pending quiet_world)"
    by blast
  from t' abc_inkey have "t' = bc_terminal" by simp
  from next_call [unfolded this, OF bc_collect]
  have "\<exists>m. ''bc'' = ''bc'' @ decoded m quiet_world \<and>
            pending quiet_world = drop m (pending quiet_world)"
    by (simp add: key_a_def)
  moreover have "rev (keyboard_buf bc_terminal) = ''bc''"
    by (simp add: bc_terminal_def)
  ultimately show ?thesis using abc_inkey bc_collect by simp
qed

subsection \<open>The wait after an Escape key\<close>






















end
